theory Spec2Isabelle
  imports Main "HOL-Library.Word" "HOL-Library.Char_ord" "HOL-Library.List_Lexorder"
begin

unbundle bit_operations_syntax

text \<open>
  The converter of NASDAQ TotalView-ITCH 5.0 captures into a wide Parquet table
  (\<^verbatim>\<open>nasdaq/nasdaq_equities_totalview_itch_v5_0.cpp\<close>): the field decoders, the
  row, the message decoders and their dispatch, the schema, the demultiplexer of
  Ethernet, IPv4 and UDP, and the loop over the MoldUDP64 message blocks. The pcap and
  header types and the driver of the JNX PTS-ITCH 1.6 converter are the same statements
  in another namespace.
\<close>

section \<open>Memory and wire primitives\<close>

text \<open>
  The converter walks a captured frame through raw \<^verbatim>\<open>u_char*\<close> cursors and never
  compares a cursor with the end of the frame. A pointer is therefore an address
  (a natural number) and the memory is an address space with a byte at every address:
  a read past the captured frame returns whatever byte lies there, exactly as the
  unchecked dereference of the source does.
\<close>

type_synonym mem = "nat \<Rightarrow> 8 word"

text \<open>A frame laid out from address 0; the bytes behind it are zero.\<close>

definition mem_of :: "8 word list \<Rightarrow> mem" where
  "mem_of bs = (\<lambda>a. if a < length bs then bs ! a else 0)"

text \<open>
  \<^verbatim>\<open>htobe16(*reinterpret_cast<uint16_t*>(p))\<close>, \<^verbatim>\<open>ntohs\<close>, \<^verbatim>\<open>htobe32\<close> and
  \<^verbatim>\<open>htobe64\<close> applied to an unaligned load: the value of the bytes at \<open>p\<close> read
  in network byte order.
\<close>

definition be16 :: "mem \<Rightarrow> nat \<Rightarrow> 16 word" where
  "be16 m p = push_bit 8 (ucast (m p)) OR ucast (m (p + 1))"

definition be32 :: "mem \<Rightarrow> nat \<Rightarrow> 32 word" where
  "be32 m p = push_bit 24 (ucast (m p)) OR push_bit 16 (ucast (m (p + 1)))
     OR push_bit 8 (ucast (m (p + 2))) OR ucast (m (p + 3))"

definition be64 :: "mem \<Rightarrow> nat \<Rightarrow> 64 word" where
  "be64 m p = push_bit 56 (ucast (m p)) OR push_bit 48 (ucast (m (p + 1)))
     OR push_bit 40 (ucast (m (p + 2))) OR push_bit 32 (ucast (m (p + 3)))
     OR push_bit 24 (ucast (m (p + 4))) OR push_bit 16 (ucast (m (p + 5)))
     OR push_bit 8 (ucast (m (p + 6))) OR ucast (m (p + 7))"

text \<open>
  The six-byte timestamp of \<^verbatim>\<open>timestamp::set\<close>:
  \<^verbatim>\<open>for (i = 0; i < size; ++i) { value = (value << 8) + **current; *current += 1; }\<close>
\<close>

fun timestamp_loop :: "mem \<Rightarrow> nat \<Rightarrow> nat \<Rightarrow> 64 word \<Rightarrow> 64 word" where
  "timestamp_loop m current 0 v = v"
| "timestamp_loop m current (Suc n) v =
     timestamp_loop m (current + 1) n (push_bit 8 v + ucast (m current))"

definition be48 :: "mem \<Rightarrow> nat \<Rightarrow> 64 word" where
  "be48 m p = timestamp_loop m p 6 0"

text \<open>
  The scan of every fixed-width text field (\<^verbatim>\<open>attribution::set\<close>,
  \<^verbatim>\<open>issue_sub_type::set\<close>, \<^verbatim>\<open>mpid::set\<close>, \<^verbatim>\<open>reason::set\<close>, \<^verbatim>\<open>stock::set\<close>):
  \<^verbatim>\<open>for (; index < size; ++index) { if (*(*current + index) == ' ') { break; } }\<close>
  The function returns the value of \<open>index\<close> when the loop is left; \<open>width\<close> is the
  field's \<^verbatim>\<open>size\<close> constant.
\<close>

function ascii_scan :: "mem \<Rightarrow> nat \<Rightarrow> nat \<Rightarrow> nat \<Rightarrow> nat" where
  "ascii_scan m current width index =
     (if index < width
      then (if m (current + index) = 0x20 then index
            else ascii_scan m current width (index + 1))
      else index)"
  by pat_completeness auto
termination
  by (relation "measure (\<lambda>(m, current, width, index). width - index)") auto

text \<open>\<^verbatim>\<open>std::string_view(reinterpret_cast<char*>(*current), index)\<close>\<close>

definition string_view :: "mem \<Rightarrow> nat \<Rightarrow> nat \<Rightarrow> 8 word list" where
  "string_view m current n = map (\<lambda>i. m (current + i)) [0..<n]"

definition fixed_ascii :: "mem \<Rightarrow> nat \<Rightarrow> nat \<Rightarrow> 8 word list" where
  "fixed_ascii m current width = string_view m current (ascii_scan m current width 0)"

section \<open>The row\<close>

text \<open>
  \<^verbatim>\<open>struct record\<close>: the pcap fields, the MoldUDP64 header fields and the union of
  the fields of every message. Each member of the source is a small struct around one
  \<^verbatim>\<open>data\<close> value; the model keeps the value under the member's name.
  \<^verbatim>\<open>message_index\<close> has two values, \<^verbatim>\<open>count\<close> and \<^verbatim>\<open>data\<close>: they are
  \<open>message_index_count\<close> and \<open>message_index\<close>. An optional member is an \<open>option\<close>;
  text is a list of bytes; \<^verbatim>\<open>std::chrono::microseconds\<close> is its 64-bit count.
\<close>

record itch_record =
  pcap_index :: "64 word"
  pcap_timestamp :: "64 word"
  session :: "8 word list"
  message_sequence :: "64 word"
  message_index_count :: "16 word"
  message_index :: "16 word"
  message_length :: "16 word"
  message_type :: "8 word"
  attribution :: "8 word list option"
  auction_collar_extension :: "32 word option"
  auction_collar_reference_price :: "32 word option"
  authenticity :: "8 word option"
  breached_level :: "8 word option"
  buy_sell_indicator :: "8 word option"
  canceled_shares :: "32 word option"
  cross_price :: "32 word option"
  cross_shares :: "64 word option"
  cross_type :: "8 word option"
  current_reference_price :: "32 word option"
  etp_flag :: "8 word option"
  etp_leverage_factor :: "32 word option"
  event_code :: "8 word option"
  executed_shares :: "32 word option"
  execution_price :: "32 word option"
  far_price :: "32 word option"
  financial_status_indicator :: "8 word option"
  imbalance_direction :: "8 word option"
  imbalance_shares :: "64 word option"
  interest_flag :: "8 word option"
  inverse_indicator :: "8 word option"
  ipo_flag :: "8 word option"
  ipo_price :: "32 word option"
  ipo_quotation_release_qualifier :: "8 word option"
  ipo_quotation_release_time :: "32 word option"
  issue_classification :: "8 word option"
  issue_sub_type :: "8 word list option"
  level_1 :: "64 word option"
  level_2 :: "64 word option"
  level_3 :: "64 word option"
  locate_code :: "16 word option"
  lower_auction_collar_price :: "32 word option"
  luld_reference_price_tier :: "8 word option"
  market_category :: "8 word option"
  market_maker_mode :: "8 word option"
  market_participant_state :: "8 word option"
  match_number :: "64 word option"
  mpid :: "8 word list option"
  near_price :: "32 word option"
  new_order_reference_number :: "64 word option"
  order_reference_number :: "64 word option"
  original_order_reference_number :: "64 word option"
  paired_shares :: "64 word option"
  price :: "32 word option"
  price_variation_indicator :: "8 word option"
  primary_market_maker :: "8 word option"
  printable :: "8 word option"
  reason :: "8 word list option"
  reg_sho_action :: "8 word option"
  reserved :: "8 word option"
  round_lot_size :: "32 word option"
  round_lots_only :: "8 word option"
  shares :: "32 word option"
  short_sale_threshold_indicator :: "8 word option"
  stock :: "8 word list option"
  stock_locate :: "16 word option"
  timestamp :: "64 word option"
  tracking_number :: "16 word option"
  trading_state :: "8 word option"
  upper_auction_collar_price :: "32 word option"

text \<open>\<^verbatim>\<open>record{}\<close>: every number zero, the session empty, every optional member absent.\<close>

definition record_init :: itch_record where
  "record_init = \<lparr>pcap_index = 0, pcap_timestamp = 0, session = [], message_sequence = 0,
     message_index_count = 0, message_index = 0, message_length = 0, message_type = 0,
     attribution = None, auction_collar_extension = None,
     auction_collar_reference_price = None, authenticity = None, breached_level = None,
     buy_sell_indicator = None, canceled_shares = None, cross_price = None,
     cross_shares = None, cross_type = None, current_reference_price = None, etp_flag = None,
     etp_leverage_factor = None, event_code = None, executed_shares = None,
     execution_price = None, far_price = None, financial_status_indicator = None,
     imbalance_direction = None, imbalance_shares = None, interest_flag = None,
     inverse_indicator = None, ipo_flag = None, ipo_price = None,
     ipo_quotation_release_qualifier = None, ipo_quotation_release_time = None,
     issue_classification = None, issue_sub_type = None, level_1 = None, level_2 = None,
     level_3 = None, locate_code = None, lower_auction_collar_price = None,
     luld_reference_price_tier = None, market_category = None, market_maker_mode = None,
     market_participant_state = None, match_number = None, mpid = None, near_price = None,
     new_order_reference_number = None, order_reference_number = None,
     original_order_reference_number = None, paired_shares = None, price = None,
     price_variation_indicator = None, primary_market_maker = None, printable = None,
     reason = None, reg_sho_action = None, reserved = None, round_lot_size = None,
     round_lots_only = None, shares = None, short_sale_threshold_indicator = None,
     stock = None, stock_locate = None, timestamp = None, tracking_number = None,
     trading_state = None, upper_auction_collar_price = None\<rparr>"

text \<open>\<^verbatim>\<open>record::reset\<close>, one \<^verbatim>\<open>reset()\<close> call of the source per update.\<close>

definition reset :: "itch_record \<Rightarrow> itch_record" where
  "reset r = r
     \<lparr>attribution := None, auction_collar_extension := None,
      auction_collar_reference_price := None, authenticity := None, breached_level := None,
      buy_sell_indicator := None, canceled_shares := None, cross_price := None,
      cross_shares := None, cross_type := None, current_reference_price := None,
      etp_flag := None, etp_leverage_factor := None, event_code := None,
      executed_shares := None, execution_price := None, far_price := None,
      financial_status_indicator := None, imbalance_direction := None,
      imbalance_shares := None, interest_flag := None, inverse_indicator := None,
      ipo_flag := None, ipo_price := None, ipo_quotation_release_qualifier := None,
      ipo_quotation_release_time := None, issue_classification := None, issue_sub_type := None,
      level_1 := None, level_2 := None, level_3 := None, locate_code := None,
      lower_auction_collar_price := None, luld_reference_price_tier := None,
      market_category := None, market_maker_mode := None, market_participant_state := None,
      match_number := None, mpid := None, near_price := None,
      new_order_reference_number := None, order_reference_number := None,
      original_order_reference_number := None, paired_shares := None, price := None,
      price_variation_indicator := None, primary_market_maker := None, printable := None,
      reason := None, reg_sho_action := None, reserved := None, round_lot_size := None,
      round_lots_only := None, shares := None, short_sale_threshold_indicator := None,
      stock := None, stock_locate := None, timestamp := None, tracking_number := None,
      trading_state := None, upper_auction_collar_price := None\<rparr>"

section \<open>Field decoders\<close>

text \<open>
  Every \<^verbatim>\<open>set(u_char** current)\<close> of the source decodes at the cursor, stores the
  value in its own member and advances the cursor by the field's \<^verbatim>\<open>size\<close>. The model
  passes the pair of cursor and row.
\<close>

type_synonym cursor_row = "nat \<times> itch_record"

definition attribution_set :: "mem \<Rightarrow> cursor_row \<Rightarrow> cursor_row" where
  "attribution_set m = (\<lambda>(current, r).
     (current + 4, r\<lparr>attribution := Some (fixed_ascii m current 4)\<rparr>))"

definition auction_collar_extension_set :: "mem \<Rightarrow> cursor_row \<Rightarrow> cursor_row" where
  "auction_collar_extension_set m = (\<lambda>(current, r).
     (current + 4, r\<lparr>auction_collar_extension := Some (be32 m current)\<rparr>))"

definition auction_collar_reference_price_set :: "mem \<Rightarrow> cursor_row \<Rightarrow> cursor_row" where
  "auction_collar_reference_price_set m = (\<lambda>(current, r).
     (current + 4, r\<lparr>auction_collar_reference_price := Some (be32 m current)\<rparr>))"

definition authenticity_set :: "mem \<Rightarrow> cursor_row \<Rightarrow> cursor_row" where
  "authenticity_set m = (\<lambda>(current, r).
     (current + 1, r\<lparr>authenticity := Some (m current)\<rparr>))"

definition breached_level_set :: "mem \<Rightarrow> cursor_row \<Rightarrow> cursor_row" where
  "breached_level_set m = (\<lambda>(current, r).
     (current + 1, r\<lparr>breached_level := Some (m current)\<rparr>))"

definition buy_sell_indicator_set :: "mem \<Rightarrow> cursor_row \<Rightarrow> cursor_row" where
  "buy_sell_indicator_set m = (\<lambda>(current, r).
     (current + 1, r\<lparr>buy_sell_indicator := Some (m current)\<rparr>))"

definition canceled_shares_set :: "mem \<Rightarrow> cursor_row \<Rightarrow> cursor_row" where
  "canceled_shares_set m = (\<lambda>(current, r).
     (current + 4, r\<lparr>canceled_shares := Some (be32 m current)\<rparr>))"

definition cross_price_set :: "mem \<Rightarrow> cursor_row \<Rightarrow> cursor_row" where
  "cross_price_set m = (\<lambda>(current, r).
     (current + 4, r\<lparr>cross_price := Some (be32 m current)\<rparr>))"

definition cross_shares_set :: "mem \<Rightarrow> cursor_row \<Rightarrow> cursor_row" where
  "cross_shares_set m = (\<lambda>(current, r).
     (current + 8, r\<lparr>cross_shares := Some (be64 m current)\<rparr>))"

definition cross_type_set :: "mem \<Rightarrow> cursor_row \<Rightarrow> cursor_row" where
  "cross_type_set m = (\<lambda>(current, r).
     (current + 1, r\<lparr>cross_type := Some (m current)\<rparr>))"

definition current_reference_price_set :: "mem \<Rightarrow> cursor_row \<Rightarrow> cursor_row" where
  "current_reference_price_set m = (\<lambda>(current, r).
     (current + 4, r\<lparr>current_reference_price := Some (be32 m current)\<rparr>))"

definition etp_flag_set :: "mem \<Rightarrow> cursor_row \<Rightarrow> cursor_row" where
  "etp_flag_set m = (\<lambda>(current, r).
     (current + 1, r\<lparr>etp_flag := Some (m current)\<rparr>))"

definition etp_leverage_factor_set :: "mem \<Rightarrow> cursor_row \<Rightarrow> cursor_row" where
  "etp_leverage_factor_set m = (\<lambda>(current, r).
     (current + 4, r\<lparr>etp_leverage_factor := Some (be32 m current)\<rparr>))"

definition event_code_set :: "mem \<Rightarrow> cursor_row \<Rightarrow> cursor_row" where
  "event_code_set m = (\<lambda>(current, r).
     (current + 1, r\<lparr>event_code := Some (m current)\<rparr>))"

definition executed_shares_set :: "mem \<Rightarrow> cursor_row \<Rightarrow> cursor_row" where
  "executed_shares_set m = (\<lambda>(current, r).
     (current + 4, r\<lparr>executed_shares := Some (be32 m current)\<rparr>))"

definition execution_price_set :: "mem \<Rightarrow> cursor_row \<Rightarrow> cursor_row" where
  "execution_price_set m = (\<lambda>(current, r).
     (current + 4, r\<lparr>execution_price := Some (be32 m current)\<rparr>))"

definition far_price_set :: "mem \<Rightarrow> cursor_row \<Rightarrow> cursor_row" where
  "far_price_set m = (\<lambda>(current, r).
     (current + 4, r\<lparr>far_price := Some (be32 m current)\<rparr>))"

definition financial_status_indicator_set :: "mem \<Rightarrow> cursor_row \<Rightarrow> cursor_row" where
  "financial_status_indicator_set m = (\<lambda>(current, r).
     (current + 1, r\<lparr>financial_status_indicator := Some (m current)\<rparr>))"

definition imbalance_direction_set :: "mem \<Rightarrow> cursor_row \<Rightarrow> cursor_row" where
  "imbalance_direction_set m = (\<lambda>(current, r).
     (current + 1, r\<lparr>imbalance_direction := Some (m current)\<rparr>))"

definition imbalance_shares_set :: "mem \<Rightarrow> cursor_row \<Rightarrow> cursor_row" where
  "imbalance_shares_set m = (\<lambda>(current, r).
     (current + 8, r\<lparr>imbalance_shares := Some (be64 m current)\<rparr>))"

definition interest_flag_set :: "mem \<Rightarrow> cursor_row \<Rightarrow> cursor_row" where
  "interest_flag_set m = (\<lambda>(current, r).
     (current + 1, r\<lparr>interest_flag := Some (m current)\<rparr>))"

definition inverse_indicator_set :: "mem \<Rightarrow> cursor_row \<Rightarrow> cursor_row" where
  "inverse_indicator_set m = (\<lambda>(current, r).
     (current + 1, r\<lparr>inverse_indicator := Some (m current)\<rparr>))"

definition ipo_flag_set :: "mem \<Rightarrow> cursor_row \<Rightarrow> cursor_row" where
  "ipo_flag_set m = (\<lambda>(current, r).
     (current + 1, r\<lparr>ipo_flag := Some (m current)\<rparr>))"

definition ipo_price_set :: "mem \<Rightarrow> cursor_row \<Rightarrow> cursor_row" where
  "ipo_price_set m = (\<lambda>(current, r).
     (current + 4, r\<lparr>ipo_price := Some (be32 m current)\<rparr>))"

definition ipo_quotation_release_qualifier_set :: "mem \<Rightarrow> cursor_row \<Rightarrow> cursor_row" where
  "ipo_quotation_release_qualifier_set m = (\<lambda>(current, r).
     (current + 1, r\<lparr>ipo_quotation_release_qualifier := Some (m current)\<rparr>))"

definition ipo_quotation_release_time_set :: "mem \<Rightarrow> cursor_row \<Rightarrow> cursor_row" where
  "ipo_quotation_release_time_set m = (\<lambda>(current, r).
     (current + 4, r\<lparr>ipo_quotation_release_time := Some (be32 m current)\<rparr>))"

definition issue_classification_set :: "mem \<Rightarrow> cursor_row \<Rightarrow> cursor_row" where
  "issue_classification_set m = (\<lambda>(current, r).
     (current + 1, r\<lparr>issue_classification := Some (m current)\<rparr>))"

definition issue_sub_type_set :: "mem \<Rightarrow> cursor_row \<Rightarrow> cursor_row" where
  "issue_sub_type_set m = (\<lambda>(current, r).
     (current + 2, r\<lparr>issue_sub_type := Some (fixed_ascii m current 2)\<rparr>))"

definition level_1_set :: "mem \<Rightarrow> cursor_row \<Rightarrow> cursor_row" where
  "level_1_set m = (\<lambda>(current, r).
     (current + 8, r\<lparr>level_1 := Some (be64 m current)\<rparr>))"

definition level_2_set :: "mem \<Rightarrow> cursor_row \<Rightarrow> cursor_row" where
  "level_2_set m = (\<lambda>(current, r).
     (current + 8, r\<lparr>level_2 := Some (be64 m current)\<rparr>))"

definition level_3_set :: "mem \<Rightarrow> cursor_row \<Rightarrow> cursor_row" where
  "level_3_set m = (\<lambda>(current, r).
     (current + 8, r\<lparr>level_3 := Some (be64 m current)\<rparr>))"

definition locate_code_set :: "mem \<Rightarrow> cursor_row \<Rightarrow> cursor_row" where
  "locate_code_set m = (\<lambda>(current, r).
     (current + 2, r\<lparr>locate_code := Some (be16 m current)\<rparr>))"

definition lower_auction_collar_price_set :: "mem \<Rightarrow> cursor_row \<Rightarrow> cursor_row" where
  "lower_auction_collar_price_set m = (\<lambda>(current, r).
     (current + 4, r\<lparr>lower_auction_collar_price := Some (be32 m current)\<rparr>))"

definition luld_reference_price_tier_set :: "mem \<Rightarrow> cursor_row \<Rightarrow> cursor_row" where
  "luld_reference_price_tier_set m = (\<lambda>(current, r).
     (current + 1, r\<lparr>luld_reference_price_tier := Some (m current)\<rparr>))"

definition market_category_set :: "mem \<Rightarrow> cursor_row \<Rightarrow> cursor_row" where
  "market_category_set m = (\<lambda>(current, r).
     (current + 1, r\<lparr>market_category := Some (m current)\<rparr>))"

definition market_maker_mode_set :: "mem \<Rightarrow> cursor_row \<Rightarrow> cursor_row" where
  "market_maker_mode_set m = (\<lambda>(current, r).
     (current + 1, r\<lparr>market_maker_mode := Some (m current)\<rparr>))"

definition market_participant_state_set :: "mem \<Rightarrow> cursor_row \<Rightarrow> cursor_row" where
  "market_participant_state_set m = (\<lambda>(current, r).
     (current + 1, r\<lparr>market_participant_state := Some (m current)\<rparr>))"

definition match_number_set :: "mem \<Rightarrow> cursor_row \<Rightarrow> cursor_row" where
  "match_number_set m = (\<lambda>(current, r).
     (current + 8, r\<lparr>match_number := Some (be64 m current)\<rparr>))"

definition mpid_set :: "mem \<Rightarrow> cursor_row \<Rightarrow> cursor_row" where
  "mpid_set m = (\<lambda>(current, r).
     (current + 4, r\<lparr>mpid := Some (fixed_ascii m current 4)\<rparr>))"

definition near_price_set :: "mem \<Rightarrow> cursor_row \<Rightarrow> cursor_row" where
  "near_price_set m = (\<lambda>(current, r).
     (current + 4, r\<lparr>near_price := Some (be32 m current)\<rparr>))"

definition new_order_reference_number_set :: "mem \<Rightarrow> cursor_row \<Rightarrow> cursor_row" where
  "new_order_reference_number_set m = (\<lambda>(current, r).
     (current + 8, r\<lparr>new_order_reference_number := Some (be64 m current)\<rparr>))"

definition order_reference_number_set :: "mem \<Rightarrow> cursor_row \<Rightarrow> cursor_row" where
  "order_reference_number_set m = (\<lambda>(current, r).
     (current + 8, r\<lparr>order_reference_number := Some (be64 m current)\<rparr>))"

definition original_order_reference_number_set :: "mem \<Rightarrow> cursor_row \<Rightarrow> cursor_row" where
  "original_order_reference_number_set m = (\<lambda>(current, r).
     (current + 8, r\<lparr>original_order_reference_number := Some (be64 m current)\<rparr>))"

definition paired_shares_set :: "mem \<Rightarrow> cursor_row \<Rightarrow> cursor_row" where
  "paired_shares_set m = (\<lambda>(current, r).
     (current + 8, r\<lparr>paired_shares := Some (be64 m current)\<rparr>))"

definition price_set :: "mem \<Rightarrow> cursor_row \<Rightarrow> cursor_row" where
  "price_set m = (\<lambda>(current, r).
     (current + 4, r\<lparr>price := Some (be32 m current)\<rparr>))"

definition price_variation_indicator_set :: "mem \<Rightarrow> cursor_row \<Rightarrow> cursor_row" where
  "price_variation_indicator_set m = (\<lambda>(current, r).
     (current + 1, r\<lparr>price_variation_indicator := Some (m current)\<rparr>))"

definition primary_market_maker_set :: "mem \<Rightarrow> cursor_row \<Rightarrow> cursor_row" where
  "primary_market_maker_set m = (\<lambda>(current, r).
     (current + 1, r\<lparr>primary_market_maker := Some (m current)\<rparr>))"

definition printable_set :: "mem \<Rightarrow> cursor_row \<Rightarrow> cursor_row" where
  "printable_set m = (\<lambda>(current, r).
     (current + 1, r\<lparr>printable := Some (m current)\<rparr>))"

definition reason_set :: "mem \<Rightarrow> cursor_row \<Rightarrow> cursor_row" where
  "reason_set m = (\<lambda>(current, r).
     (current + 4, r\<lparr>reason := Some (fixed_ascii m current 4)\<rparr>))"

definition reg_sho_action_set :: "mem \<Rightarrow> cursor_row \<Rightarrow> cursor_row" where
  "reg_sho_action_set m = (\<lambda>(current, r).
     (current + 1, r\<lparr>reg_sho_action := Some (m current)\<rparr>))"

definition reserved_set :: "mem \<Rightarrow> cursor_row \<Rightarrow> cursor_row" where
  "reserved_set m = (\<lambda>(current, r).
     (current + 1, r\<lparr>reserved := Some (m current)\<rparr>))"

definition round_lot_size_set :: "mem \<Rightarrow> cursor_row \<Rightarrow> cursor_row" where
  "round_lot_size_set m = (\<lambda>(current, r).
     (current + 4, r\<lparr>round_lot_size := Some (be32 m current)\<rparr>))"

definition round_lots_only_set :: "mem \<Rightarrow> cursor_row \<Rightarrow> cursor_row" where
  "round_lots_only_set m = (\<lambda>(current, r).
     (current + 1, r\<lparr>round_lots_only := Some (m current)\<rparr>))"

definition shares_set :: "mem \<Rightarrow> cursor_row \<Rightarrow> cursor_row" where
  "shares_set m = (\<lambda>(current, r).
     (current + 4, r\<lparr>shares := Some (be32 m current)\<rparr>))"

definition short_sale_threshold_indicator_set :: "mem \<Rightarrow> cursor_row \<Rightarrow> cursor_row" where
  "short_sale_threshold_indicator_set m = (\<lambda>(current, r).
     (current + 1, r\<lparr>short_sale_threshold_indicator := Some (m current)\<rparr>))"

definition stock_set :: "mem \<Rightarrow> cursor_row \<Rightarrow> cursor_row" where
  "stock_set m = (\<lambda>(current, r).
     (current + 8, r\<lparr>stock := Some (fixed_ascii m current 8)\<rparr>))"

definition stock_locate_set :: "mem \<Rightarrow> cursor_row \<Rightarrow> cursor_row" where
  "stock_locate_set m = (\<lambda>(current, r).
     (current + 2, r\<lparr>stock_locate := Some (be16 m current)\<rparr>))"

definition timestamp_set :: "mem \<Rightarrow> cursor_row \<Rightarrow> cursor_row" where
  "timestamp_set m = (\<lambda>(current, r).
     (current + 6, r\<lparr>timestamp := Some (be48 m current)\<rparr>))"

definition tracking_number_set :: "mem \<Rightarrow> cursor_row \<Rightarrow> cursor_row" where
  "tracking_number_set m = (\<lambda>(current, r).
     (current + 2, r\<lparr>tracking_number := Some (be16 m current)\<rparr>))"

definition trading_state_set :: "mem \<Rightarrow> cursor_row \<Rightarrow> cursor_row" where
  "trading_state_set m = (\<lambda>(current, r).
     (current + 1, r\<lparr>trading_state := Some (m current)\<rparr>))"

definition upper_auction_collar_price_set :: "mem \<Rightarrow> cursor_row \<Rightarrow> cursor_row" where
  "upper_auction_collar_price_set m = (\<lambda>(current, r).
     (current + 4, r\<lparr>upper_auction_collar_price := Some (be32 m current)\<rparr>))"

section \<open>Message decoders\<close>

text \<open>
  The \<^verbatim>\<open>process_..._message\<close> members of the converter: the field decoders of one
  message type, run in wire order on the message cursor.
\<close>

definition process_add_order_no_mpid_attribution_message :: "mem \<Rightarrow> cursor_row \<Rightarrow> cursor_row" where
  "process_add_order_no_mpid_attribution_message m =
     fold (\<lambda>set. set) [stock_locate_set m, tracking_number_set m, timestamp_set m,
       order_reference_number_set m, buy_sell_indicator_set m, shares_set m, stock_set m,
       price_set m]"

definition process_add_order_with_mpid_attribution_message :: "mem \<Rightarrow> cursor_row \<Rightarrow> cursor_row" where
  "process_add_order_with_mpid_attribution_message m =
     fold (\<lambda>set. set) [stock_locate_set m, tracking_number_set m, timestamp_set m,
       order_reference_number_set m, buy_sell_indicator_set m, shares_set m, stock_set m,
       price_set m, attribution_set m]"

definition process_broken_trade_message :: "mem \<Rightarrow> cursor_row \<Rightarrow> cursor_row" where
  "process_broken_trade_message m =
     fold (\<lambda>set. set) [stock_locate_set m, tracking_number_set m, timestamp_set m,
       match_number_set m]"

definition process_cross_trade_message :: "mem \<Rightarrow> cursor_row \<Rightarrow> cursor_row" where
  "process_cross_trade_message m =
     fold (\<lambda>set. set) [stock_locate_set m, tracking_number_set m, timestamp_set m,
       cross_shares_set m, stock_set m, cross_price_set m, match_number_set m,
       cross_type_set m]"

definition process_ipo_quoting_period_update :: "mem \<Rightarrow> cursor_row \<Rightarrow> cursor_row" where
  "process_ipo_quoting_period_update m =
     fold (\<lambda>set. set) [stock_locate_set m, tracking_number_set m, timestamp_set m,
       stock_set m, ipo_quotation_release_time_set m, ipo_quotation_release_qualifier_set m,
       ipo_price_set m]"

definition process_luld_auction_collar_message :: "mem \<Rightarrow> cursor_row \<Rightarrow> cursor_row" where
  "process_luld_auction_collar_message m =
     fold (\<lambda>set. set) [stock_locate_set m, tracking_number_set m, timestamp_set m,
       stock_set m, auction_collar_reference_price_set m, upper_auction_collar_price_set m,
       lower_auction_collar_price_set m, auction_collar_extension_set m]"

definition process_market_participant_position_message :: "mem \<Rightarrow> cursor_row \<Rightarrow> cursor_row" where
  "process_market_participant_position_message m =
     fold (\<lambda>set. set) [stock_locate_set m, tracking_number_set m, timestamp_set m,
       mpid_set m, stock_set m, primary_market_maker_set m, market_maker_mode_set m,
       market_participant_state_set m]"

definition process_mwcb_decline_level_message :: "mem \<Rightarrow> cursor_row \<Rightarrow> cursor_row" where
  "process_mwcb_decline_level_message m =
     fold (\<lambda>set. set) [stock_locate_set m, tracking_number_set m, timestamp_set m,
       level_1_set m, level_2_set m, level_3_set m]"

definition process_mwcb_status_level_message :: "mem \<Rightarrow> cursor_row \<Rightarrow> cursor_row" where
  "process_mwcb_status_level_message m =
     fold (\<lambda>set. set) [stock_locate_set m, tracking_number_set m, timestamp_set m,
       breached_level_set m]"

definition process_net_order_imbalance_indicator_message :: "mem \<Rightarrow> cursor_row \<Rightarrow> cursor_row" where
  "process_net_order_imbalance_indicator_message m =
     fold (\<lambda>set. set) [stock_locate_set m, tracking_number_set m, timestamp_set m,
       paired_shares_set m, imbalance_shares_set m, imbalance_direction_set m, stock_set m,
       far_price_set m, near_price_set m, current_reference_price_set m, cross_type_set m,
       price_variation_indicator_set m]"

definition process_non_cross_trade_message :: "mem \<Rightarrow> cursor_row \<Rightarrow> cursor_row" where
  "process_non_cross_trade_message m =
     fold (\<lambda>set. set) [stock_locate_set m, tracking_number_set m, timestamp_set m,
       order_reference_number_set m, buy_sell_indicator_set m, shares_set m, stock_set m,
       price_set m, match_number_set m]"

definition process_order_cancel_message :: "mem \<Rightarrow> cursor_row \<Rightarrow> cursor_row" where
  "process_order_cancel_message m =
     fold (\<lambda>set. set) [stock_locate_set m, tracking_number_set m, timestamp_set m,
       order_reference_number_set m, canceled_shares_set m]"

definition process_order_delete_message :: "mem \<Rightarrow> cursor_row \<Rightarrow> cursor_row" where
  "process_order_delete_message m =
     fold (\<lambda>set. set) [stock_locate_set m, tracking_number_set m, timestamp_set m,
       order_reference_number_set m]"

definition process_order_executed_message :: "mem \<Rightarrow> cursor_row \<Rightarrow> cursor_row" where
  "process_order_executed_message m =
     fold (\<lambda>set. set) [stock_locate_set m, tracking_number_set m, timestamp_set m,
       order_reference_number_set m, executed_shares_set m, match_number_set m]"

definition process_order_executed_with_price_message :: "mem \<Rightarrow> cursor_row \<Rightarrow> cursor_row" where
  "process_order_executed_with_price_message m =
     fold (\<lambda>set. set) [stock_locate_set m, tracking_number_set m, timestamp_set m,
       order_reference_number_set m, executed_shares_set m, match_number_set m,
       printable_set m, execution_price_set m]"

definition process_order_replace_message :: "mem \<Rightarrow> cursor_row \<Rightarrow> cursor_row" where
  "process_order_replace_message m =
     fold (\<lambda>set. set) [stock_locate_set m, tracking_number_set m, timestamp_set m,
       original_order_reference_number_set m, new_order_reference_number_set m, shares_set m,
       price_set m]"

definition process_reg_sho_short_sale_price_test_restricted_indicator_message :: "mem \<Rightarrow> cursor_row \<Rightarrow> cursor_row" where
  "process_reg_sho_short_sale_price_test_restricted_indicator_message m =
     fold (\<lambda>set. set) [locate_code_set m, tracking_number_set m, timestamp_set m,
       stock_set m, reg_sho_action_set m]"

definition process_retail_interest_message :: "mem \<Rightarrow> cursor_row \<Rightarrow> cursor_row" where
  "process_retail_interest_message m =
     fold (\<lambda>set. set) [stock_locate_set m, tracking_number_set m, timestamp_set m,
       stock_set m, interest_flag_set m]"

definition process_stock_directory_message :: "mem \<Rightarrow> cursor_row \<Rightarrow> cursor_row" where
  "process_stock_directory_message m =
     fold (\<lambda>set. set) [stock_locate_set m, tracking_number_set m, timestamp_set m,
       stock_set m, market_category_set m, financial_status_indicator_set m,
       round_lot_size_set m, round_lots_only_set m, issue_classification_set m,
       issue_sub_type_set m, authenticity_set m, short_sale_threshold_indicator_set m,
       ipo_flag_set m, luld_reference_price_tier_set m, etp_flag_set m,
       etp_leverage_factor_set m, inverse_indicator_set m]"

definition process_stock_trading_action_message :: "mem \<Rightarrow> cursor_row \<Rightarrow> cursor_row" where
  "process_stock_trading_action_message m =
     fold (\<lambda>set. set) [stock_locate_set m, tracking_number_set m, timestamp_set m,
       stock_set m, trading_state_set m, reserved_set m, reason_set m]"

definition process_system_event_message :: "mem \<Rightarrow> cursor_row \<Rightarrow> cursor_row" where
  "process_system_event_message m =
     fold (\<lambda>set. set) [stock_locate_set m, tracking_number_set m, timestamp_set m,
       event_code_set m]"

text \<open>
  \<^verbatim>\<open>converter::process(u_char** message, const char message_type)\<close>: the switch on the
  type byte; \<^verbatim>\<open>default: break;\<close> leaves cursor and row as they are. The cases are the
  characters S R H Y L V W K A J F E C X D U P Q B I N, here as their byte values.
\<close>

definition process_message :: "mem \<Rightarrow> 8 word \<Rightarrow> cursor_row \<Rightarrow> cursor_row" where
  "process_message m type s =
    (if type = 0x53 then process_system_event_message m s
     else if type = 0x52 then process_stock_directory_message m s
     else if type = 0x48 then process_stock_trading_action_message m s
     else if type = 0x59 then process_reg_sho_short_sale_price_test_restricted_indicator_message m s
     else if type = 0x4C then process_market_participant_position_message m s
     else if type = 0x56 then process_mwcb_decline_level_message m s
     else if type = 0x57 then process_mwcb_status_level_message m s
     else if type = 0x4B then process_ipo_quoting_period_update m s
     else if type = 0x41 then process_add_order_no_mpid_attribution_message m s
     else if type = 0x4A then process_luld_auction_collar_message m s
     else if type = 0x46 then process_add_order_with_mpid_attribution_message m s
     else if type = 0x45 then process_order_executed_message m s
     else if type = 0x43 then process_order_executed_with_price_message m s
     else if type = 0x58 then process_order_cancel_message m s
     else if type = 0x44 then process_order_delete_message m s
     else if type = 0x55 then process_order_replace_message m s
     else if type = 0x50 then process_non_cross_trade_message m s
     else if type = 0x51 then process_cross_trade_message m s
     else if type = 0x42 then process_broken_trade_message m s
     else if type = 0x49 then process_net_order_imbalance_indicator_message m s
     else if type = 0x4E then process_retail_interest_message m s
     else s)"

text \<open>
  The catalog: for each message type of the switch, the names of the columns its decoder
  fills, in wire order.
\<close>

definition catalog :: "8 word \<Rightarrow> string list option" where
  "catalog type =
    (if type = 0x53 then Some
       [''stock_locate'', ''tracking_number'', ''timestamp'', ''event_code'']
     else if type = 0x52 then Some
       [''stock_locate'', ''tracking_number'', ''timestamp'', ''stock'', ''market_category'',
        ''financial_status_indicator'', ''round_lot_size'', ''round_lots_only'',
        ''issue_classification'', ''issue_sub_type'', ''authenticity'',
        ''short_sale_threshold_indicator'', ''ipo_flag'', ''luld_reference_price_tier'',
        ''etp_flag'', ''etp_leverage_factor'', ''inverse_indicator'']
     else if type = 0x48 then Some
       [''stock_locate'', ''tracking_number'', ''timestamp'', ''stock'', ''trading_state'',
        ''reserved'', ''reason'']
     else if type = 0x59 then Some
       [''locate_code'', ''tracking_number'', ''timestamp'', ''stock'', ''reg_sho_action'']
     else if type = 0x4C then Some
       [''stock_locate'', ''tracking_number'', ''timestamp'', ''mpid'', ''stock'',
        ''primary_market_maker'', ''market_maker_mode'', ''market_participant_state'']
     else if type = 0x56 then Some
       [''stock_locate'', ''tracking_number'', ''timestamp'', ''level_1'', ''level_2'',
        ''level_3'']
     else if type = 0x57 then Some
       [''stock_locate'', ''tracking_number'', ''timestamp'', ''breached_level'']
     else if type = 0x4B then Some
       [''stock_locate'', ''tracking_number'', ''timestamp'', ''stock'',
        ''ipo_quotation_release_time'', ''ipo_quotation_release_qualifier'', ''ipo_price'']
     else if type = 0x41 then Some
       [''stock_locate'', ''tracking_number'', ''timestamp'', ''order_reference_number'',
        ''buy_sell_indicator'', ''shares'', ''stock'', ''price'']
     else if type = 0x4A then Some
       [''stock_locate'', ''tracking_number'', ''timestamp'', ''stock'',
        ''auction_collar_reference_price'', ''upper_auction_collar_price'',
        ''lower_auction_collar_price'', ''auction_collar_extension'']
     else if type = 0x46 then Some
       [''stock_locate'', ''tracking_number'', ''timestamp'', ''order_reference_number'',
        ''buy_sell_indicator'', ''shares'', ''stock'', ''price'', ''attribution'']
     else if type = 0x45 then Some
       [''stock_locate'', ''tracking_number'', ''timestamp'', ''order_reference_number'',
        ''executed_shares'', ''match_number'']
     else if type = 0x43 then Some
       [''stock_locate'', ''tracking_number'', ''timestamp'', ''order_reference_number'',
        ''executed_shares'', ''match_number'', ''printable'', ''execution_price'']
     else if type = 0x58 then Some
       [''stock_locate'', ''tracking_number'', ''timestamp'', ''order_reference_number'',
        ''canceled_shares'']
     else if type = 0x44 then Some
       [''stock_locate'', ''tracking_number'', ''timestamp'', ''order_reference_number'']
     else if type = 0x55 then Some
       [''stock_locate'', ''tracking_number'', ''timestamp'',
        ''original_order_reference_number'', ''new_order_reference_number'', ''shares'',
        ''price'']
     else if type = 0x50 then Some
       [''stock_locate'', ''tracking_number'', ''timestamp'', ''order_reference_number'',
        ''buy_sell_indicator'', ''shares'', ''stock'', ''price'', ''match_number'']
     else if type = 0x51 then Some
       [''stock_locate'', ''tracking_number'', ''timestamp'', ''cross_shares'', ''stock'',
        ''cross_price'', ''match_number'', ''cross_type'']
     else if type = 0x42 then Some
       [''stock_locate'', ''tracking_number'', ''timestamp'', ''match_number'']
     else if type = 0x49 then Some
       [''stock_locate'', ''tracking_number'', ''timestamp'', ''paired_shares'',
        ''imbalance_shares'', ''imbalance_direction'', ''stock'', ''far_price'',
        ''near_price'', ''current_reference_price'', ''cross_type'',
        ''price_variation_indicator'']
     else if type = 0x4E then Some
       [''stock_locate'', ''tracking_number'', ''timestamp'', ''stock'', ''interest_flag'']
     else None)"

section \<open>Schema and columnar stream\<close>

datatype repetition = REQUIRED | OPTIONAL

datatype physical_type = INT32 | INT64 | BYTE_ARRAY

datatype converted_type = UINT_8 | UINT_16 | UINT_32 | UINT_64 | UTF8 | TIMESTAMP_MICROS

record node =
  node_name :: string
  node_repetition :: repetition
  node_type :: physical_type
  node_converted_type :: converted_type

text \<open>
  \<^verbatim>\<open>record::nodes\<close>: the \<^verbatim>\<open>node()\<close> of each column struct in the order of the source,
  built from the struct's constants \<^verbatim>\<open>name\<close>, \<^verbatim>\<open>repetition\<close>, \<^verbatim>\<open>parquet_type\<close>
  (or \<^verbatim>\<open>type\<close>) and \<^verbatim>\<open>converted_type\<close>. The second entry is the node of
  \<^verbatim>\<open>struct pcap_timestamp\<close>.
\<close>

definition mk_node ::
    "string \<Rightarrow> repetition \<Rightarrow> physical_type \<Rightarrow> converted_type \<Rightarrow> node" where
  "mk_node n r t c =
     \<lparr>node_name = n, node_repetition = r, node_type = t, node_converted_type = c\<rparr>"

definition nodes :: "node list" where
  "nodes =
    [mk_node ''pcap_index'' REQUIRED INT64 UINT_64,
     mk_node ''timestamp'' REQUIRED INT64 TIMESTAMP_MICROS,
     mk_node ''session'' REQUIRED BYTE_ARRAY UTF8,
     mk_node ''message_sequence'' REQUIRED INT64 UINT_64,
     mk_node ''message_index'' REQUIRED INT32 UINT_16,
     mk_node ''message_type'' REQUIRED INT32 UINT_8,
     mk_node ''attribution'' OPTIONAL BYTE_ARRAY UTF8,
     mk_node ''auction_collar_extension'' OPTIONAL INT32 UINT_32,
     mk_node ''auction_collar_reference_price'' OPTIONAL INT32 UINT_32,
     mk_node ''authenticity'' OPTIONAL INT32 UINT_8,
     mk_node ''breached_level'' OPTIONAL INT32 UINT_8,
     mk_node ''buy_sell_indicator'' OPTIONAL INT32 UINT_8,
     mk_node ''canceled_shares'' OPTIONAL INT32 UINT_32,
     mk_node ''cross_price'' OPTIONAL INT32 UINT_32,
     mk_node ''cross_shares'' OPTIONAL INT64 UINT_64,
     mk_node ''cross_type'' OPTIONAL INT32 UINT_8,
     mk_node ''current_reference_price'' OPTIONAL INT32 UINT_32,
     mk_node ''etp_flag'' OPTIONAL INT32 UINT_8,
     mk_node ''etp_leverage_factor'' OPTIONAL INT32 UINT_32,
     mk_node ''event_code'' OPTIONAL INT32 UINT_8,
     mk_node ''executed_shares'' OPTIONAL INT32 UINT_32,
     mk_node ''execution_price'' OPTIONAL INT32 UINT_32,
     mk_node ''far_price'' OPTIONAL INT32 UINT_32,
     mk_node ''financial_status_indicator'' OPTIONAL INT32 UINT_8,
     mk_node ''imbalance_direction'' OPTIONAL INT32 UINT_8,
     mk_node ''imbalance_shares'' OPTIONAL INT64 UINT_64,
     mk_node ''interest_flag'' OPTIONAL INT32 UINT_8,
     mk_node ''inverse_indicator'' OPTIONAL INT32 UINT_8,
     mk_node ''ipo_flag'' OPTIONAL INT32 UINT_8,
     mk_node ''ipo_price'' OPTIONAL INT32 UINT_32,
     mk_node ''ipo_quotation_release_qualifier'' OPTIONAL INT32 UINT_8,
     mk_node ''ipo_quotation_release_time'' OPTIONAL INT32 UINT_32,
     mk_node ''issue_classification'' OPTIONAL INT32 UINT_8,
     mk_node ''issue_sub_type'' OPTIONAL BYTE_ARRAY UTF8,
     mk_node ''level_1'' OPTIONAL INT64 UINT_64,
     mk_node ''level_2'' OPTIONAL INT64 UINT_64,
     mk_node ''level_3'' OPTIONAL INT64 UINT_64,
     mk_node ''locate_code'' OPTIONAL INT32 UINT_16,
     mk_node ''lower_auction_collar_price'' OPTIONAL INT32 UINT_32,
     mk_node ''luld_reference_price_tier'' OPTIONAL INT32 UINT_8,
     mk_node ''market_category'' OPTIONAL INT32 UINT_8,
     mk_node ''market_maker_mode'' OPTIONAL INT32 UINT_8,
     mk_node ''market_participant_state'' OPTIONAL INT32 UINT_8,
     mk_node ''match_number'' OPTIONAL INT64 UINT_64,
     mk_node ''mpid'' OPTIONAL BYTE_ARRAY UTF8,
     mk_node ''near_price'' OPTIONAL INT32 UINT_32,
     mk_node ''new_order_reference_number'' OPTIONAL INT64 UINT_64,
     mk_node ''order_reference_number'' OPTIONAL INT64 UINT_64,
     mk_node ''original_order_reference_number'' OPTIONAL INT64 UINT_64,
     mk_node ''paired_shares'' OPTIONAL INT64 UINT_64,
     mk_node ''price'' OPTIONAL INT32 UINT_32,
     mk_node ''price_variation_indicator'' OPTIONAL INT32 UINT_8,
     mk_node ''primary_market_maker'' OPTIONAL INT32 UINT_8,
     mk_node ''printable'' OPTIONAL INT32 UINT_8,
     mk_node ''reason'' OPTIONAL BYTE_ARRAY UTF8,
     mk_node ''reg_sho_action'' OPTIONAL INT32 UINT_8,
     mk_node ''reserved'' OPTIONAL INT32 UINT_8,
     mk_node ''round_lot_size'' OPTIONAL INT32 UINT_32,
     mk_node ''round_lots_only'' OPTIONAL INT32 UINT_8,
     mk_node ''shares'' OPTIONAL INT32 UINT_32,
     mk_node ''short_sale_threshold_indicator'' OPTIONAL INT32 UINT_8,
     mk_node ''stock'' OPTIONAL BYTE_ARRAY UTF8,
     mk_node ''stock_locate'' OPTIONAL INT32 UINT_16,
     mk_node ''timestamp'' OPTIONAL INT64 UINT_64,
     mk_node ''tracking_number'' OPTIONAL INT32 UINT_16,
     mk_node ''trading_state'' OPTIONAL INT32 UINT_8,
     mk_node ''upper_auction_collar_price'' OPTIONAL INT32 UINT_32]"

text \<open>
  Modelled from the spec: the Parquet stream writer and reader are an external library
  (section 4.6: append one typed value per column per row, nullable for optional
  columns). A row in the file is the list of its column values; a value is read back
  only into a variable of the type it was written with, an absent optional value is a
  null, and a row ends after its last column.
\<close>

datatype cell =
    Null
  | UInt8 "8 word"
  | UInt16 "16 word"
  | UInt32 "32 word"
  | UInt64 "64 word"
  | Micros "64 word"
  | Utf8 "8 word list"

text \<open>Writing a \<^verbatim>\<open>std::optional\<close>: the value, or a null.\<close>

definition put_optional :: "('a \<Rightarrow> cell) \<Rightarrow> 'a option \<Rightarrow> cell" where
  "put_optional put v = (case v of None \<Rightarrow> Null | Some x \<Rightarrow> put x)"

text \<open>
  \<^verbatim>\<open>operator<<(parquet::StreamWriter&, const record&)\<close>: the columns in the order
  of the source; \<^verbatim>\<open>message_length\<close> and the count of \<^verbatim>\<open>message_index\<close> are not
  written. \<^verbatim>\<open>message_type\<close> is written as \<^verbatim>\<open>uint8_t\<close>.
\<close>

definition write_row :: "itch_record \<Rightarrow> cell list" where
  "write_row row =
    [UInt64 (pcap_index row),
     Micros (pcap_timestamp row),
     Utf8 (session row),
     UInt64 (message_sequence row),
     UInt16 (message_index row),
     UInt8 (message_type row),
     put_optional Utf8 (attribution row),
     put_optional UInt32 (auction_collar_extension row),
     put_optional UInt32 (auction_collar_reference_price row),
     put_optional UInt8 (authenticity row),
     put_optional UInt8 (breached_level row),
     put_optional UInt8 (buy_sell_indicator row),
     put_optional UInt32 (canceled_shares row),
     put_optional UInt32 (cross_price row),
     put_optional UInt64 (cross_shares row),
     put_optional UInt8 (cross_type row),
     put_optional UInt32 (current_reference_price row),
     put_optional UInt8 (etp_flag row),
     put_optional UInt32 (etp_leverage_factor row),
     put_optional UInt8 (event_code row),
     put_optional UInt32 (executed_shares row),
     put_optional UInt32 (execution_price row),
     put_optional UInt32 (far_price row),
     put_optional UInt8 (financial_status_indicator row),
     put_optional UInt8 (imbalance_direction row),
     put_optional UInt64 (imbalance_shares row),
     put_optional UInt8 (interest_flag row),
     put_optional UInt8 (inverse_indicator row),
     put_optional UInt8 (ipo_flag row),
     put_optional UInt32 (ipo_price row),
     put_optional UInt8 (ipo_quotation_release_qualifier row),
     put_optional UInt32 (ipo_quotation_release_time row),
     put_optional UInt8 (issue_classification row),
     put_optional Utf8 (issue_sub_type row),
     put_optional UInt64 (level_1 row),
     put_optional UInt64 (level_2 row),
     put_optional UInt64 (level_3 row),
     put_optional UInt16 (locate_code row),
     put_optional UInt32 (lower_auction_collar_price row),
     put_optional UInt8 (luld_reference_price_tier row),
     put_optional UInt8 (market_category row),
     put_optional UInt8 (market_maker_mode row),
     put_optional UInt8 (market_participant_state row),
     put_optional UInt64 (match_number row),
     put_optional Utf8 (mpid row),
     put_optional UInt32 (near_price row),
     put_optional UInt64 (new_order_reference_number row),
     put_optional UInt64 (order_reference_number row),
     put_optional UInt64 (original_order_reference_number row),
     put_optional UInt64 (paired_shares row),
     put_optional UInt32 (price row),
     put_optional UInt8 (price_variation_indicator row),
     put_optional UInt8 (primary_market_maker row),
     put_optional UInt8 (printable row),
     put_optional Utf8 (reason row),
     put_optional UInt8 (reg_sho_action row),
     put_optional UInt8 (reserved row),
     put_optional UInt32 (round_lot_size row),
     put_optional UInt8 (round_lots_only row),
     put_optional UInt32 (shares row),
     put_optional UInt8 (short_sale_threshold_indicator row),
     put_optional Utf8 (stock row),
     put_optional UInt16 (stock_locate row),
     put_optional UInt64 (timestamp row),
     put_optional UInt16 (tracking_number row),
     put_optional UInt8 (trading_state row),
     put_optional UInt32 (upper_auction_collar_price row)]"

text \<open>
  Reading one column into a member: \<open>upd\<close> is the member's update. A cell of another
  type, or a missing cell, is the reader's exception (\<open>None\<close>).
\<close>

type_synonym reader = "cell list \<times> itch_record \<Rightarrow> (cell list \<times> itch_record) option"

type_synonym 'a update = "('a \<Rightarrow> 'a) \<Rightarrow> itch_record \<Rightarrow> itch_record"

definition get_uint64 :: "64 word update \<Rightarrow> reader" where
  "get_uint64 upd = (\<lambda>(cs, row). case cs of
       UInt64 v # cs' \<Rightarrow> Some (cs', upd (\<lambda>_. v) row)
     | _ \<Rightarrow> None)"

definition get_micros :: "64 word update \<Rightarrow> reader" where
  "get_micros upd = (\<lambda>(cs, row). case cs of
       Micros v # cs' \<Rightarrow> Some (cs', upd (\<lambda>_. v) row)
     | _ \<Rightarrow> None)"

definition get_utf8 :: "(8 word list) update \<Rightarrow> reader" where
  "get_utf8 upd = (\<lambda>(cs, row). case cs of
       Utf8 v # cs' \<Rightarrow> Some (cs', upd (\<lambda>_. v) row)
     | _ \<Rightarrow> None)"

definition get_uint16 :: "16 word update \<Rightarrow> reader" where
  "get_uint16 upd = (\<lambda>(cs, row). case cs of
       UInt16 v # cs' \<Rightarrow> Some (cs', upd (\<lambda>_. v) row)
     | _ \<Rightarrow> None)"

definition get_uint8 :: "8 word update \<Rightarrow> reader" where
  "get_uint8 upd = (\<lambda>(cs, row). case cs of
       UInt8 v # cs' \<Rightarrow> Some (cs', upd (\<lambda>_. v) row)
     | _ \<Rightarrow> None)"

definition get_optional_uint8 :: "(8 word option) update \<Rightarrow> reader" where
  "get_optional_uint8 upd = (\<lambda>(cs, row). case cs of
       Null # cs' \<Rightarrow> Some (cs', upd (\<lambda>_. None) row)
     | UInt8 v # cs' \<Rightarrow> Some (cs', upd (\<lambda>_. Some v) row)
     | _ \<Rightarrow> None)"

definition get_optional_uint16 :: "(16 word option) update \<Rightarrow> reader" where
  "get_optional_uint16 upd = (\<lambda>(cs, row). case cs of
       Null # cs' \<Rightarrow> Some (cs', upd (\<lambda>_. None) row)
     | UInt16 v # cs' \<Rightarrow> Some (cs', upd (\<lambda>_. Some v) row)
     | _ \<Rightarrow> None)"

definition get_optional_uint32 :: "(32 word option) update \<Rightarrow> reader" where
  "get_optional_uint32 upd = (\<lambda>(cs, row). case cs of
       Null # cs' \<Rightarrow> Some (cs', upd (\<lambda>_. None) row)
     | UInt32 v # cs' \<Rightarrow> Some (cs', upd (\<lambda>_. Some v) row)
     | _ \<Rightarrow> None)"

definition get_optional_uint64 :: "(64 word option) update \<Rightarrow> reader" where
  "get_optional_uint64 upd = (\<lambda>(cs, row). case cs of
       Null # cs' \<Rightarrow> Some (cs', upd (\<lambda>_. None) row)
     | UInt64 v # cs' \<Rightarrow> Some (cs', upd (\<lambda>_. Some v) row)
     | _ \<Rightarrow> None)"

definition get_optional_utf8 :: "(8 word list option) update \<Rightarrow> reader" where
  "get_optional_utf8 upd = (\<lambda>(cs, row). case cs of
       Null # cs' \<Rightarrow> Some (cs', upd (\<lambda>_. None) row)
     | Utf8 v # cs' \<Rightarrow> Some (cs', upd (\<lambda>_. Some v) row)
     | _ \<Rightarrow> None)"

text \<open>\<^verbatim>\<open>parquet::EndRow\<close> on the reader: the row has no further column.\<close>

definition end_row :: reader where
  "end_row = (\<lambda>(cs, row). if cs = [] then Some (cs, row) else None)"

text \<open>
  \<^verbatim>\<open>operator>>(parquet::StreamReader&, record&)\<close>: the columns are read in the order
  of the source into the members of \<open>row\<close>; the first failure ends the read.
\<close>

definition read_row :: "cell list \<Rightarrow> itch_record \<Rightarrow> itch_record option" where
  "read_row cs row = map_option snd (fold (\<lambda>get s. Option.bind s get)
    [get_uint64 pcap_index_update,
     get_micros pcap_timestamp_update,
     get_utf8 session_update,
     get_uint64 message_sequence_update,
     get_uint16 message_index_update,
     get_uint8 message_type_update,
     get_optional_utf8 attribution_update,
     get_optional_uint32 auction_collar_extension_update,
     get_optional_uint32 auction_collar_reference_price_update,
     get_optional_uint8 authenticity_update,
     get_optional_uint8 breached_level_update,
     get_optional_uint8 buy_sell_indicator_update,
     get_optional_uint32 canceled_shares_update,
     get_optional_uint32 cross_price_update,
     get_optional_uint64 cross_shares_update,
     get_optional_uint8 cross_type_update,
     get_optional_uint32 current_reference_price_update,
     get_optional_uint8 etp_flag_update,
     get_optional_uint32 etp_leverage_factor_update,
     get_optional_uint8 event_code_update,
     get_optional_uint32 executed_shares_update,
     get_optional_uint32 execution_price_update,
     get_optional_uint32 far_price_update,
     get_optional_uint8 financial_status_indicator_update,
     get_optional_uint8 imbalance_direction_update,
     get_optional_uint64 imbalance_shares_update,
     get_optional_uint8 interest_flag_update,
     get_optional_uint8 inverse_indicator_update,
     get_optional_uint8 ipo_flag_update,
     get_optional_uint32 ipo_price_update,
     get_optional_uint8 ipo_quotation_release_qualifier_update,
     get_optional_uint32 ipo_quotation_release_time_update,
     get_optional_uint8 issue_classification_update,
     get_optional_utf8 issue_sub_type_update,
     get_optional_uint64 level_1_update,
     get_optional_uint64 level_2_update,
     get_optional_uint64 level_3_update,
     get_optional_uint16 locate_code_update,
     get_optional_uint32 lower_auction_collar_price_update,
     get_optional_uint8 luld_reference_price_tier_update,
     get_optional_uint8 market_category_update,
     get_optional_uint8 market_maker_mode_update,
     get_optional_uint8 market_participant_state_update,
     get_optional_uint64 match_number_update,
     get_optional_utf8 mpid_update,
     get_optional_uint32 near_price_update,
     get_optional_uint64 new_order_reference_number_update,
     get_optional_uint64 order_reference_number_update,
     get_optional_uint64 original_order_reference_number_update,
     get_optional_uint64 paired_shares_update,
     get_optional_uint32 price_update,
     get_optional_uint8 price_variation_indicator_update,
     get_optional_uint8 primary_market_maker_update,
     get_optional_uint8 printable_update,
     get_optional_utf8 reason_update,
     get_optional_uint8 reg_sho_action_update,
     get_optional_uint8 reserved_update,
     get_optional_uint32 round_lot_size_update,
     get_optional_uint8 round_lots_only_update,
     get_optional_uint32 shares_update,
     get_optional_uint8 short_sale_threshold_indicator_update,
     get_optional_utf8 stock_update,
     get_optional_uint16 stock_locate_update,
     get_optional_uint64 timestamp_update,
     get_optional_uint16 tracking_number_update,
     get_optional_uint8 trading_state_update,
     get_optional_uint32 upper_auction_collar_price_update,
     end_row]
    (Some (cs, row)))"

section \<open>The converter\<close>

text \<open>
  \<^verbatim>\<open>struct converter\<close>: the row under construction and the stream writer. The writer
  is the list of rows streamed into it so far, each the list of its column values.
\<close>

record converter =
  rec :: itch_record
  writer :: "cell list list"

text \<open>\<^verbatim>\<open>converter(options)\<close>: a value-initialised row and a fresh file.\<close>

definition converter_init :: converter where
  "converter_init = \<lparr>rec = record_init, writer = []\<rparr>"

text \<open>The fields of \<^verbatim>\<open>pcap_pkthdr\<close> (libpcap).\<close>

record pcap_pkthdr =
  tv_sec :: "64 word"
  tv_usec :: "64 word"
  caplen :: "32 word"
  len :: "32 word"

subsection \<open>pcap and MoldUDP64 header fields\<close>

text \<open>\<^verbatim>\<open>pcap_index::increment\<close>: \<^verbatim>\<open>data++\<close> on a \<^verbatim>\<open>uint64_t\<close>.\<close>

definition pcap_index_increment :: "itch_record \<Rightarrow> itch_record" where
  "pcap_index_increment r = r\<lparr>pcap_index := pcap_index r + 1\<rparr>"

text \<open>
  \<^verbatim>\<open>pcap_timestamp::set(const pcap_pkthdr*)\<close>: seconds plus microseconds, as a count
  of microseconds.
\<close>

definition pcap_timestamp_set :: "pcap_pkthdr \<Rightarrow> itch_record \<Rightarrow> itch_record" where
  "pcap_timestamp_set pkthdr r =
     r\<lparr>pcap_timestamp := tv_sec pkthdr * 1000000 + tv_usec pkthdr\<rparr>"

text \<open>\<^verbatim>\<open>session::set\<close>: \<^verbatim>\<open>data.assign(reinterpret_cast<char*>(*current), size)\<close>, size 10.\<close>

definition session_set :: "mem \<Rightarrow> cursor_row \<Rightarrow> cursor_row" where
  "session_set m = (\<lambda>(current, r).
     (current + 10, r\<lparr>session := string_view m current 10\<rparr>))"

definition message_sequence_set :: "mem \<Rightarrow> cursor_row \<Rightarrow> cursor_row" where
  "message_sequence_set m = (\<lambda>(current, r).
     (current + 8, r\<lparr>message_sequence := be64 m current\<rparr>))"

text \<open>\<^verbatim>\<open>message_sequence::increment\<close>: \<^verbatim>\<open>data++\<close> on a \<^verbatim>\<open>uint64_t\<close>.\<close>

definition message_sequence_increment :: "itch_record \<Rightarrow> itch_record" where
  "message_sequence_increment r = r\<lparr>message_sequence := message_sequence r + 1\<rparr>"

text \<open>\<^verbatim>\<open>message_index::set\<close>: the count is read from the header, the index restarts at 0.\<close>

definition message_index_set :: "mem \<Rightarrow> cursor_row \<Rightarrow> cursor_row" where
  "message_index_set m = (\<lambda>(current, r).
     (current + 2, r\<lparr>message_index_count := be16 m current, message_index := 0\<rparr>))"

text \<open>
  \<^verbatim>\<open>message_index::increment\<close>: \<^verbatim>\<open>data++; return data <= count;\<close> on two
  \<^verbatim>\<open>uint16_t\<close>. The index is incremented also when the answer is no.
\<close>

definition message_index_increment :: "itch_record \<Rightarrow> bool \<times> itch_record" where
  "message_index_increment r =
     (let r' = r\<lparr>message_index := message_index r + 1\<rparr>
      in (message_index r' \<le> message_index_count r', r'))"

text \<open>
  \<^verbatim>\<open>message_length::set(u_char** current, u_char** message)\<close>: reads the length of the
  block, points \<^verbatim>\<open>message\<close> at its body and moves \<^verbatim>\<open>current\<close> behind the body. The
  result is the new \<^verbatim>\<open>current\<close>, \<^verbatim>\<open>message\<close> and the row.
\<close>

definition message_length_set ::
    "mem \<Rightarrow> nat \<Rightarrow> itch_record \<Rightarrow> nat \<times> nat \<times> itch_record" where
  "message_length_set m current r =
     (let data = be16 m current;
          current = current + 2;
          message = current;
          current = current + unat data
      in (current, message, r\<lparr>message_length := data\<rparr>))"

definition message_type_set :: "mem \<Rightarrow> cursor_row \<Rightarrow> cursor_row" where
  "message_type_set m = (\<lambda>(current, r).
     (current + 1, r\<lparr>message_type := m current\<rparr>))"

subsection \<open>Demultiplexing a frame\<close>

text \<open>
  The loop of \<^verbatim>\<open>try_get_nasdaq_itch\<close> over the EtherType:
  \<^verbatim>\<open>while (ntohs(*reinterpret_cast<const u_short*>(*payload)) != ETHERTYPE_IP) { *payload += 4; }\<close>
  with \<^verbatim>\<open>ETHERTYPE_IP\<close> = 0x0800. Nothing bounds the loop: where no such value is ever
  found it does not return, and the result is \<open>None\<close>.
\<close>

partial_function (option) try_get_nasdaq_itch_while :: "mem \<Rightarrow> nat \<Rightarrow> nat option" where
  "try_get_nasdaq_itch_while m payload =
     (if be16 m payload \<noteq> 0x0800 then try_get_nasdaq_itch_while m (payload + 4)
      else Some payload)"

declare try_get_nasdaq_itch_while.simps [code]

text \<open>
  Modelled from the spec: the layouts of \<^verbatim>\<open>struct ip\<close> and \<^verbatim>\<open>struct udphdr\<close> come
  from the system headers (section 4.2): the IPv4 header length is the lower nibble of
  the first byte times 4, the protocol is the byte at offset 9 and UDP is 17; the UDP
  header has 8 bytes and its length field is at offset 4.

  \<^verbatim>\<open>try_get_nasdaq_itch\<close> returns the answer, the payload pointer (0 for
  \<^verbatim>\<open>nullptr\<close>), the payload length (\<^verbatim>\<open>length\<close>, an \<^verbatim>\<open>int32_t\<close>) and the converter, whose
  \<^verbatim>\<open>pcap_index\<close> it increments first.
\<close>

definition try_get_nasdaq_itch ::
    "mem \<Rightarrow> nat \<Rightarrow> converter \<Rightarrow> (bool \<times> nat \<times> 32 word \<times> converter) option" where
  "try_get_nasdaq_itch m packet c =
     (let c = c\<lparr>rec := pcap_index_increment (rec c)\<rparr>;
          payload = packet;
          payload = payload + 12
      in case try_get_nasdaq_itch_while m payload of
           None \<Rightarrow> None
         | Some payload \<Rightarrow>
            (let payload = payload + 2;
                 ipheader = payload;
                 ip_length = unat (m ipheader AND 0x0F) * 4;
                 payload = payload + ip_length
             in if m (ipheader + 9) = 17
                then (let udp = payload;
                          payload_length = ucast (be16 m (udp + 4)) - 8;
                          payload = payload + 8
                      in Some (True, payload, payload_length, c))
                else Some (False, 0, 0, c)))"

subsection \<open>Processing a packet\<close>

text \<open>
  The body of the loop of \<^verbatim>\<open>converter::process(const pcap_pkthdr*, const u_char*)\<close>:
  \<^verbatim>\<open>record.reset(); record.message_length.set(&current, &message);
  record.message_type.set(&message); record.message_sequence.increment();
  process(&message, record.message_type.data); writer << record;\<close>
\<close>

definition process_block :: "mem \<Rightarrow> nat \<times> converter \<Rightarrow> nat \<times> converter" where
  "process_block m = (\<lambda>(current, c).
     (let r = reset (rec c);
          (current, message, r) = message_length_set m current r;
          (message, r) = message_type_set m (message, r);
          r = message_sequence_increment r;
          (message, r) = process_message m (message_type r) (message, r)
      in (current, c\<lparr>rec := r, writer := writer c @ [write_row r]\<rparr>)))"

text \<open>
  \<^verbatim>\<open>while (record.message_index.increment()) { ... }\<close>. The result is \<open>None\<close> where
  the loop does not return.
\<close>

partial_function (option) process_while ::
    "mem \<Rightarrow> nat \<times> converter \<Rightarrow> (nat \<times> converter) option" where
  "process_while m s =
     (case message_index_increment (rec (snd s)) of
        (continue, r) \<Rightarrow>
          if continue then process_while m (process_block m (fst s, (snd s)\<lparr>rec := r\<rparr>))
          else Some (fst s, (snd s)\<lparr>rec := r\<rparr>))"

declare process_while.simps [code]

text \<open>
  \<^verbatim>\<open>converter::process(const pcap_pkthdr* header, const u_char* packet)\<close>, in two
  parts. \<open>process_header\<close> is the statements between the demultiplexer and the loop:
  \<^verbatim>\<open>record.pcap_timestamp.set(header); record.session.set(&current);
  record.message_sequence.set(&current); record.message_index.set(&current);\<close>
  The payload length that the demultiplexer computed is a local variable of the source
  that no later statement reads.
\<close>

definition process_header ::
    "mem \<Rightarrow> pcap_pkthdr \<Rightarrow> nat \<Rightarrow> converter \<Rightarrow> nat \<times> converter" where
  "process_header m header current c =
     (let r = pcap_timestamp_set header (rec c);
          (current, r) = session_set m (current, r);
          (current, r) = message_sequence_set m (current, r);
          (current, r) = message_index_set m (current, r)
      in (current, c\<lparr>rec := r\<rparr>))"

definition process :: "mem \<Rightarrow> pcap_pkthdr \<Rightarrow> nat \<Rightarrow> converter \<Rightarrow> converter option" where
  "process m header packet c =
     (case try_get_nasdaq_itch m packet c of
        None \<Rightarrow> None
      | Some (found, current, payload_length, c) \<Rightarrow>
          if found then map_option snd (process_while m (process_header m header current c))
          else Some c)"

text \<open>
  The message-field columns of a written row that are not null, by column name: the
  six framing columns lead every row and are left out.
\<close>

definition non_null_columns :: "cell list \<Rightarrow> string list" where
  "non_null_columns row =
     map (node_name \<circ> fst) (filter (\<lambda>(n, c). c \<noteq> Null) (drop 6 (zip nodes row)))"

text \<open>
  Modelled from the spec: the stream writer accepts a value only in a column of its own
  type (section 4.1: column types are fixed per field and must match on read-back), and
  a null only in an optional column.
\<close>

definition conforms :: "node \<Rightarrow> cell \<Rightarrow> bool" where
  "conforms n c =
     (case c of
        Null \<Rightarrow> node_repetition n = OPTIONAL
      | UInt8 _ \<Rightarrow> node_type n = INT32 \<and> node_converted_type n = UINT_8
      | UInt16 _ \<Rightarrow> node_type n = INT32 \<and> node_converted_type n = UINT_16
      | UInt32 _ \<Rightarrow> node_type n = INT32 \<and> node_converted_type n = UINT_32
      | UInt64 _ \<Rightarrow> node_type n = INT64 \<and> node_converted_type n = UINT_64
      | Micros _ \<Rightarrow> node_type n = INT64 \<and> node_converted_type n = TIMESTAMP_MICROS
      | Utf8 _ \<Rightarrow> node_type n = BYTE_ARRAY \<and> node_converted_type n = UTF8)"

section \<open>Frames used as examples\<close>

text \<open>
  An Ethernet frame with an IPv4 header of 20 bytes and a UDP header around a payload;
  the IPv4 total length is the payload length plus 28, the UDP length the payload
  length plus 8. The payload starts at offset 42.
\<close>

definition udp_frame :: "8 word list \<Rightarrow> 8 word list" where
  "udp_frame payload =
     [0x01, 0x00, 0x5E, 0x00, 0x00, 0x01, 0x02, 0x00, 0x00, 0x00, 0x00, 0x01, 0x08, 0x00,
      0x45, 0x00,
      of_nat ((length payload + 28) div 256), of_nat ((length payload + 28) mod 256),
      0x00, 0x00, 0x00, 0x00, 0x01, 0x11, 0x00, 0x00,
      0x0A, 0x00, 0x00, 0x01, 0xE0, 0x00, 0x00, 0x01,
      0x30, 0x39, 0x30, 0x39,
      of_nat ((length payload + 8) div 256), of_nat ((length payload + 8) mod 256),
      0x00, 0x00] @ payload"

text \<open>Session SESSION001, sequence 100 and the given message count.\<close>

definition mold_header :: "8 word \<Rightarrow> 8 word \<Rightarrow> 8 word list" where
  "mold_header count_hi count_lo =
     [0x53, 0x45, 0x53, 0x53, 0x49, 0x4F, 0x4E, 0x30, 0x30, 0x31,
      0x00, 0x00, 0x00, 0x00, 0x00, 0x00, 0x00, 0x64, count_hi, count_lo]"

text \<open>
  A System Event block: length 12, type S, stock locate 0, tracking number 0,
  timestamp 0x00000000E100, event code O.
\<close>

definition system_event_block :: "8 word list" where
  "system_event_block =
     [0x00, 0x0C, 0x53, 0x00, 0x00, 0x00, 0x00, 0x00, 0x00, 0x00, 0x00, 0xE1, 0x00, 0x4F]"

text \<open>
  An Order Delete block: length 19, type D, stock locate 1, tracking number 0,
  timestamp 2, order reference number 0x0100.
\<close>

definition order_delete_block :: "8 word list" where
  "order_delete_block =
     [0x00, 0x13, 0x44, 0x00, 0x01, 0x00, 0x00, 0x00, 0x00, 0x00, 0x00, 0x00, 0x02,
      0x00, 0x00, 0x00, 0x00, 0x00, 0x00, 0x01, 0x00]"

text \<open>A block of length 3 whose type byte 0x7A is not a case of the switch.\<close>

definition unknown_block :: "8 word list" where
  "unknown_block = [0x00, 0x03, 0x7A, 0xAA, 0xBB]"

text \<open>Scenario A: one System Event message.\<close>

definition scenario_A :: mem where
  "scenario_A = mem_of (udp_frame (mold_header 0x00 0x01 @ system_event_block))"

text \<open>Scenario C: an Order Delete message followed by a message of unknown type.\<close>

definition scenario_C :: mem where
  "scenario_C = mem_of (udp_frame (mold_header 0x00 0x02 @ order_delete_block @ unknown_block))"

text \<open>A heartbeat: message count 0 and no block.\<close>

definition heartbeat :: mem where
  "heartbeat = mem_of (udp_frame (mold_header 0x00 0x00))"

text \<open>An end-of-session packet: message count 0xFFFF and no block.\<close>

definition end_of_session :: mem where
  "end_of_session = mem_of (udp_frame (mold_header 0xFF 0xFF))"

text \<open>Message count 3, but the payload holds a single block.\<close>

definition short_payload :: mem where
  "short_payload = mem_of (udp_frame (mold_header 0x00 0x03 @ system_event_block))"

text \<open>A capture header; the converter reads its time only.\<close>

definition pkthdr0 :: pcap_pkthdr where
  "pkthdr0 = \<lparr>tv_sec = 1700000000, tv_usec = 250000, caplen = 76, len = 76\<rparr>"

section \<open>Fixed-width text\<close>

declare ascii_scan.simps [simp del]

lemma ascii_scan_takeWhile:
  "index \<le> width \<Longrightarrow>
   ascii_scan m current width index =
     index + length (takeWhile (\<lambda>b. b \<noteq> 0x20) (map (\<lambda>i. m (current + i)) [index..<width]))"
proof (induction m current width index rule: ascii_scan.induct)
  case (1 m current width index)
  show ?case
  proof (cases "index < width")
    case True
    then have u: "[index..<width] = index # [index + 1..<width]"
      by (simp add: upt_conv_Cons)
    show ?thesis
    proof (cases "m (current + index) = 0x20")
      case True
      with \<open>index < width\<close> u show ?thesis
        by (subst ascii_scan.simps) simp
    next
      case False
      with \<open>index < width\<close> have "ascii_scan m current width (index + 1) =
          index + 1 + length (takeWhile (\<lambda>b. b \<noteq> 0x20) (map (\<lambda>i. m (current + i)) [index + 1..<width]))"
        using "1.IH" by simp
      with False \<open>index < width\<close> u show ?thesis
        by (subst ascii_scan.simps) simp
    qed
  next
    case False
    with "1.prems" show ?thesis
      by (subst ascii_scan.simps) simp
  qed
qed

lemma fixed_ascii_takeWhile:
  "fixed_ascii m current width = takeWhile (\<lambda>b. b \<noteq> 0x20) (string_view m current width)"
proof -
  let ?bs = "map (\<lambda>i. m (current + i)) [0..<width]"
  have n: "ascii_scan m current width 0 = length (takeWhile (\<lambda>b. b \<noteq> 0x20) ?bs)"
    using ascii_scan_takeWhile [of 0 width m current] by simp
  have le: "length (takeWhile (\<lambda>b. b \<noteq> 0x20) ?bs) \<le> width"
    using length_takeWhile_le [of "\<lambda>b. b \<noteq> 0x20" ?bs] by simp
  have "map (\<lambda>i. m (current + i)) [0..<length (takeWhile (\<lambda>b. b \<noteq> 0x20) ?bs)]
        = take (length (takeWhile (\<lambda>b. b \<noteq> 0x20) ?bs)) ?bs"
    using le by (simp add: take_map)
  also have "\<dots> = takeWhile (\<lambda>b. b \<noteq> 0x20) ?bs"
    by (simp add: takeWhile_eq_take [symmetric])
  finally show ?thesis
    by (simp add: fixed_ascii_def string_view_def n)
qed

lemma fixed_ascii_all_spaces:
  assumes "\<forall>i<width. m (current + i) = 0x20"
  shows "fixed_ascii m current width = []"
proof -
  have "\<forall>b \<in> set (string_view m current width). \<not> b \<noteq> 0x20"
    using assms by (auto simp: string_view_def)
  then have "takeWhile (\<lambda>b. b \<noteq> 0x20) (string_view m current width) = []"
    by (cases "string_view m current width") auto
  then show ?thesis
    by (simp add: fixed_ascii_takeWhile)
qed

lemma string_view_constant:
  assumes "\<forall>i<n. m (current + i) = v"
  shows "string_view m current n = replicate n v"
  using assms by (intro nth_equalityI) (simp_all add: string_view_def)

text \<open>
  C6, as amended. Decoding one of the five fixed-width text fields of the messages
  (attribution, issue sub-type, mpid, reason and stock, of widths 4, 2, 4, 4 and 8)
  keeps exactly the bytes in front of the first 0x20 byte of its body, or the whole
  body if it holds no 0x20. Trailing padding is removed this way, and so is every
  character behind a leading or an interior space. The sixth fixed-width text field,
  the session of the MoldUDP64 header, is not trimmed at all: its ten bytes are kept
  as they are.
\<close>

theorem fixed_ascii_keeps_prefix_before_first_space:
  "fixed_ascii m current width = takeWhile (\<lambda>b. b \<noteq> 0x20) (string_view m current width)
   \<and> attribution (snd (attribution_set m (current, r)))
       = Some (takeWhile (\<lambda>b. b \<noteq> 0x20) (string_view m current 4))
   \<and> issue_sub_type (snd (issue_sub_type_set m (current, r)))
       = Some (takeWhile (\<lambda>b. b \<noteq> 0x20) (string_view m current 2))
   \<and> mpid (snd (mpid_set m (current, r)))
       = Some (takeWhile (\<lambda>b. b \<noteq> 0x20) (string_view m current 4))
   \<and> reason (snd (reason_set m (current, r)))
       = Some (takeWhile (\<lambda>b. b \<noteq> 0x20) (string_view m current 4))
   \<and> stock (snd (stock_set m (current, r)))
       = Some (takeWhile (\<lambda>b. b \<noteq> 0x20) (string_view m current 8))
   \<and> session (snd (session_set m (current, r))) = string_view m current 10
   \<and> length (session (snd (session_set m (current, r)))) = 10"
  by (simp add: fixed_ascii_takeWhile attribution_set_def issue_sub_type_set_def mpid_set_def
      reason_set_def stock_set_def session_set_def string_view_def)

text \<open>
  C6 as stated fails: the stock body \<^verbatim>\<open>"AB CD   "\<close> has the characters C and D behind an
  interior space, and it decodes to \<^verbatim>\<open>"AB"\<close>.
\<close>

theorem interior_space_truncates_stock:
  "stock (snd (stock_set (mem_of [0x41, 0x42, 0x20, 0x43, 0x44, 0x20, 0x20, 0x20])
     (0, record_init))) = Some [0x41, 0x42]"
  by code_simp

text \<open>
  C10, as amended. One of the five fixed-width text fields of the messages whose body
  consists of 0x20 bytes only decodes to the empty text, and the field is present in
  the row: the member holds \<open>Some []\<close>, not \<open>None\<close>. The session of the MoldUDP64
  header is stored untrimmed: a session body of ten 0x20 bytes is the text of ten
  spaces.
\<close>

theorem all_spaces_decode_to_present_empty_text:
  "((\<forall>i<4. m (current + i) = 0x20) \<longrightarrow>
      attribution (snd (attribution_set m (current, r))) = Some [])
   \<and> ((\<forall>i<2. m (current + i) = 0x20) \<longrightarrow>
      issue_sub_type (snd (issue_sub_type_set m (current, r))) = Some [])
   \<and> ((\<forall>i<4. m (current + i) = 0x20) \<longrightarrow>
      mpid (snd (mpid_set m (current, r))) = Some [])
   \<and> ((\<forall>i<4. m (current + i) = 0x20) \<longrightarrow>
      reason (snd (reason_set m (current, r))) = Some [])
   \<and> ((\<forall>i<8. m (current + i) = 0x20) \<longrightarrow>
      stock (snd (stock_set m (current, r))) = Some [])
   \<and> ((\<forall>i<10. m (current + i) = 0x20) \<longrightarrow>
      session (snd (session_set m (current, r))) = replicate 10 0x20)"
  by (simp add: fixed_ascii_all_spaces attribution_set_def issue_sub_type_set_def mpid_set_def
      reason_set_def stock_set_def session_set_def string_view_constant)

theorem all_spaces_decode_to_present_empty_text_witness:
  "attribution (snd (attribution_set (mem_of (replicate 10 0x20)) (0, record_init))) = Some []
   \<and> issue_sub_type (snd (issue_sub_type_set (mem_of (replicate 10 0x20)) (0, record_init)))
       = Some []
   \<and> mpid (snd (mpid_set (mem_of (replicate 10 0x20)) (0, record_init))) = Some []
   \<and> reason (snd (reason_set (mem_of (replicate 10 0x20)) (0, record_init))) = Some []
   \<and> stock (snd (stock_set (mem_of (replicate 10 0x20)) (0, record_init))) = Some []
   \<and> session (snd (session_set (mem_of (replicate 10 0x20)) (0, record_init)))
       = replicate 10 0x20"
proof -
  have h: "\<forall>i<n. mem_of (replicate 10 0x20) (0 + i) = 0x20" if "n \<le> 10" for n
    using that by (simp add: mem_of_def)
  show ?thesis
    using all_spaces_decode_to_present_empty_text [of "mem_of (replicate 10 0x20)" 0 record_init]
      h [of 4] h [of 2] h [of 8] h [of 10]
    by simp
qed

text \<open>
  C10 as stated fails on the session field: a session body of ten 0x20 bytes decodes
  to a text of length 10, not to the empty text; the row is written with that text in
  its session column.
\<close>

theorem all_space_session_keeps_ten_spaces:
  "session (snd (session_set (mem_of (replicate 10 0x20)) (0, record_init)))
     = [0x20, 0x20, 0x20, 0x20, 0x20, 0x20, 0x20, 0x20, 0x20, 0x20]
   \<and> length (session (snd (session_set (mem_of (replicate 10 0x20)) (0, record_init)))) = 10
   \<and> write_row (snd (session_set (mem_of (replicate 10 0x20)) (0, record_init))) ! 2
       = Utf8 [0x20, 0x20, 0x20, 0x20, 0x20, 0x20, 0x20, 0x20, 0x20, 0x20]"
  by code_simp

section \<open>The block loop\<close>

lemmas field_set_defs =
  attribution_set_def auction_collar_extension_set_def auction_collar_reference_price_set_def
  authenticity_set_def breached_level_set_def buy_sell_indicator_set_def canceled_shares_set_def
  cross_price_set_def cross_shares_set_def cross_type_set_def current_reference_price_set_def
  etp_flag_set_def etp_leverage_factor_set_def event_code_set_def executed_shares_set_def
  execution_price_set_def far_price_set_def financial_status_indicator_set_def
  imbalance_direction_set_def imbalance_shares_set_def interest_flag_set_def
  inverse_indicator_set_def ipo_flag_set_def ipo_price_set_def
  ipo_quotation_release_qualifier_set_def ipo_quotation_release_time_set_def
  issue_classification_set_def issue_sub_type_set_def level_1_set_def level_2_set_def
  level_3_set_def locate_code_set_def lower_auction_collar_price_set_def
  luld_reference_price_tier_set_def market_category_set_def market_maker_mode_set_def
  market_participant_state_set_def match_number_set_def mpid_set_def near_price_set_def
  new_order_reference_number_set_def order_reference_number_set_def
  original_order_reference_number_set_def paired_shares_set_def price_set_def
  price_variation_indicator_set_def primary_market_maker_set_def printable_set_def
  reason_set_def reg_sho_action_set_def reserved_set_def round_lot_size_set_def
  round_lots_only_set_def shares_set_def short_sale_threshold_indicator_set_def stock_set_def
  stock_locate_set_def timestamp_set_def tracking_number_set_def trading_state_set_def
  upper_auction_collar_price_set_def

lemmas message_defs =
  process_add_order_no_mpid_attribution_message_def
  process_add_order_with_mpid_attribution_message_def process_broken_trade_message_def
  process_cross_trade_message_def process_ipo_quoting_period_update_def
  process_luld_auction_collar_message_def process_market_participant_position_message_def
  process_mwcb_decline_level_message_def process_mwcb_status_level_message_def
  process_net_order_imbalance_indicator_message_def process_non_cross_trade_message_def
  process_order_cancel_message_def process_order_delete_message_def
  process_order_executed_message_def process_order_executed_with_price_message_def
  process_order_replace_message_def
  process_reg_sho_short_sale_price_test_restricted_indicator_message_def
  process_retail_interest_message_def process_stock_directory_message_def
  process_stock_trading_action_message_def process_system_event_message_def

text \<open>Decoding a message changes message fields only.\<close>

lemma process_message_framing:
  "message_index (snd (process_message m t (p, r))) = message_index r"
  "message_index_count (snd (process_message m t (p, r))) = message_index_count r"
  "pcap_index (snd (process_message m t (p, r))) = pcap_index r"
  "message_sequence (snd (process_message m t (p, r))) = message_sequence r"
  "message_type (snd (process_message m t (p, r))) = message_type r"
  by (simp_all add: process_message_def message_defs field_set_defs)

lemma reset_framing:
  "message_index (reset r) = message_index r"
  "message_index_count (reset r) = message_index_count r"
  "pcap_index (reset r) = pcap_index r"
  "message_sequence (reset r) = message_sequence r"
  by (simp_all add: reset_def)

lemmas process_block_defs =
  process_block_def message_length_set_def message_type_set_def message_sequence_increment_def
  Let_def split_beta

lemma process_block_cursor:
  "fst (process_block m (current, c)) = current + 2 + unat (be16 m current)"
  by (simp add: process_block_defs)

lemma process_block_writer:
  "writer (snd (process_block m (current, c)))
     = writer c @ [write_row (rec (snd (process_block m (current, c))))]"
  by (simp add: process_block_defs)

lemma process_block_framing:
  "message_index (rec (snd (process_block m (current, c)))) = message_index (rec c)"
  "message_index_count (rec (snd (process_block m (current, c)))) = message_index_count (rec c)"
  "pcap_index (rec (snd (process_block m (current, c)))) = pcap_index (rec c)"
  "message_sequence (rec (snd (process_block m (current, c)))) = message_sequence (rec c) + 1"
  "message_type (rec (snd (process_block m (current, c)))) = m (current + 2)"
  by (simp_all add: process_block_defs process_message_framing reset_framing)

lemma write_row_framing:
  "write_row r ! 3 = UInt64 (message_sequence r)"
  "write_row r ! 4 = UInt16 (message_index r)"
  "write_row r ! 5 = UInt8 (message_type r)"
  by (simp_all add: write_row_def)

lemma index_increment_unat:
  fixes i n :: "16 word"
  assumes "i \<le> n" and "n < 0xFFFF"
  shows "unat (i + 1) = unat i + 1"
proof -
  from assms have "unat i + 1 < 2 ^ 16"
    by (simp add: word_le_nat_alt word_less_nat_alt)
  then show ?thesis
    by (simp add: unat_plus_if')
qed

lemma index_increment_le_max:
  fixes i :: "16 word"
  shows "i + 1 \<le> 0xFFFF"
  using unsigned_less [of "i + 1", where 'a = nat] by (simp add: word_le_nat_alt)

text \<open>
  With a count below 0xFFFF the loop returns after one block per remaining index. The
  rows it writes carry consecutive sequence numbers, the first of them one above the
  sequence number held on entry.
\<close>

lemma process_while_rows:
  assumes "message_index_count (rec c) < 0xFFFF"
    and "message_index (rec c) \<le> message_index_count (rec c)"
    and "n = unat (message_index_count (rec c)) - unat (message_index (rec c))"
  shows "\<exists>s' rows. process_while m (current, c) = Some s'
           \<and> writer (snd s') = writer c @ rows
           \<and> length rows = n
           \<and> map (\<lambda>row. row ! 3) rows
               = map (\<lambda>k. UInt64 (message_sequence (rec c) + 1 + of_nat k)) [0..<n]
           \<and> pcap_index (rec (snd s')) = pcap_index (rec c)"
  using assms
proof (induction n arbitrary: current c)
  case 0
  then have "unat (message_index_count (rec c)) \<le> unat (message_index (rec c))"
    by simp
  with index_increment_unat [OF "0.prems"(2) "0.prems"(1)]
  have "\<not> message_index (rec c) + 1 \<le> message_index_count (rec c)"
    by (simp add: word_le_nat_alt)
  then show ?case
    by (subst process_while.simps) (simp add: message_index_increment_def Let_def)
next
  case (Suc n)
  let ?c = "c\<lparr>rec := (rec c)\<lparr>message_index := message_index (rec c) + 1\<rparr>\<rparr>"
  let ?s = "process_block m (current, ?c)"
  let ?row = "write_row (rec (snd ?s))"
  have u: "unat (message_index (rec c) + 1) = unat (message_index (rec c)) + 1"
    by (rule index_increment_unat [OF Suc.prems(2) Suc.prems(1)])
  with Suc.prems(3) have le: "message_index (rec c) + 1 \<le> message_index_count (rec c)"
    by (simp add: word_le_nat_alt)
  have "\<exists>s' rows. process_while m (fst ?s, snd ?s) = Some s'
           \<and> writer (snd s') = writer (snd ?s) @ rows
           \<and> length rows = n
           \<and> map (\<lambda>row. row ! 3) rows
               = map (\<lambda>k. UInt64 (message_sequence (rec (snd ?s)) + 1 + of_nat k)) [0..<n]
           \<and> pcap_index (rec (snd s')) = pcap_index (rec (snd ?s))"
  proof (rule Suc.IH)
    show "message_index_count (rec (snd ?s)) < 0xFFFF"
      using Suc.prems(1) by (simp add: process_block_framing)
    show "message_index (rec (snd ?s)) \<le> message_index_count (rec (snd ?s))"
      using le by (simp add: process_block_framing)
    show "n = unat (message_index_count (rec (snd ?s))) - unat (message_index (rec (snd ?s)))"
      using Suc.prems(3) u by (simp add: process_block_framing)
  qed
  then obtain s' rows where s': "process_while m ?s = Some s'"
      and w: "writer (snd s') = writer (snd ?s) @ rows"
      and l: "length rows = n"
      and q: "map (\<lambda>row. row ! 3) rows
               = map (\<lambda>k. UInt64 (message_sequence (rec (snd ?s)) + 1 + of_nat k)) [0..<n]"
      and p: "pcap_index (rec (snd s')) = pcap_index (rec (snd ?s))"
    by auto
  have step: "process_while m (current, c) = process_while m ?s"
    using le by (subst process_while.simps) (simp add: message_index_increment_def Let_def)
  have seq: "message_sequence (rec (snd ?s)) = message_sequence (rec c) + 1"
    by (simp add: process_block_framing)
  have first: "?row ! 3 = UInt64 (message_sequence (rec c) + 1 + of_nat 0)"
    by (simp add: write_row_framing seq)
  have rest: "map (\<lambda>row. row ! 3) rows
      = map (\<lambda>k. UInt64 (message_sequence (rec c) + 1 + of_nat (Suc k))) [0..<n]"
    unfolding q seq by (simp add: add.assoc)
  have upt: "[0..<Suc n] = 0 # map Suc [0..<n]"
    by (simp only: map_Suc_upt upt_conv_Cons [of 0 "Suc n"] zero_less_Suc)
  have f4: "map (\<lambda>row. row ! 3) (?row # rows)
          = map (\<lambda>k. UInt64 (message_sequence (rec c) + 1 + of_nat k)) [0..<Suc n]"
    unfolding upt by (simp only: list.map first rest map_map o_def)
  have f2: "writer (snd s') = writer c @ (?row # rows)"
    using w by (simp add: process_block_writer)
  have f3: "length (?row # rows) = Suc n"
    using l by simp
  have f5: "pcap_index (rec (snd s')) = pcap_index (rec c)"
    using p by (simp add: process_block_framing)
  have f1: "process_while m (current, c) = Some s'"
    using step s' by simp
  show ?case
    by (rule exI [where x = s'], rule exI [where x = "?row # rows"]) (intro conjI f1 f2 f3 f4 f5)
qed

text \<open>
  With a count of 0xFFFF the guard \<^verbatim>\<open>data <= count\<close> holds for every 16-bit index, and
  the loop does not return.
\<close>

lemma process_while_None:
  assumes "message_index_count (rec (snd s)) = 0xFFFF"
  shows "process_while m s = None"
proof (rule ccontr)
  assume "process_while m s \<noteq> None"
  then obtain y where y: "process_while m s = Some y"
    by auto
  have "message_index_count (rec (snd s)) \<noteq> 0xFFFF"
  proof (rule process_while.raw_induct
      [where P = "\<lambda>m s y. message_index_count (rec (snd s)) \<noteq> 0xFFFF", OF _ y])
    fix loop :: "mem \<Rightarrow> nat \<times> converter \<Rightarrow> (nat \<times> converter) option"
      and m s y
    assume IH: "\<And>m s y. loop m s = Some y \<Longrightarrow> message_index_count (rec (snd s)) \<noteq> 0xFFFF"
      and eq: "(case message_index_increment (rec (snd s)) of
          (continue, r) \<Rightarrow>
            if continue then loop m (process_block m (fst s, (snd s)\<lparr>rec := r\<rparr>))
            else Some (fst s, (snd s)\<lparr>rec := r\<rparr>)) = Some y"
    show "message_index_count (rec (snd s)) \<noteq> 0xFFFF"
    proof
      assume c: "message_index_count (rec (snd s)) = 0xFFFF"
      have "message_index (rec (snd s)) + 1 \<le> message_index_count (rec (snd s))"
        unfolding c by (rule index_increment_le_max)
      with eq have "loop m (process_block m (fst s,
          (snd s)\<lparr>rec := (rec (snd s))\<lparr>message_index := message_index (rec (snd s)) + 1\<rparr>\<rparr>)) = Some y"
        by (simp add: message_index_increment_def Let_def)
      from IH [OF this] show False
        using c by (simp add: process_block_framing)
    qed
  qed
  with assms show False
    by simp
qed

section \<open>Processing a packet\<close>

lemma try_get_nasdaq_itch_converter:
  assumes "try_get_nasdaq_itch m packet c = Some (found, current, payload_length, c1)"
  shows "c1 = c\<lparr>rec := pcap_index_increment (rec c)\<rparr>"
  using assms
  by (auto simp: try_get_nasdaq_itch_def Let_def split: option.splits if_splits)

lemmas process_header_defs =
  process_header_def pcap_timestamp_set_def session_set_def message_sequence_set_def
  message_index_set_def Let_def

lemma process_header_result:
  "fst (process_header m header current c) = current + 20"
  "writer (snd (process_header m header current c)) = writer c"
  "pcap_index (rec (snd (process_header m header current c))) = pcap_index (rec c)"
  "message_sequence (rec (snd (process_header m header current c))) = be64 m (current + 10)"
  "message_index_count (rec (snd (process_header m header current c))) = be16 m (current + 18)"
  "message_index (rec (snd (process_header m header current c))) = 0"
  by (simp_all add: process_header_defs add.commute)

text \<open>
  A demultiplexed packet whose message count is below 0xFFFF: \<^verbatim>\<open>process\<close> returns,
  with one row per counted block.
\<close>

lemma process_rows:
  assumes demux: "try_get_nasdaq_itch m packet c = Some (True, current, payload_length, c1)"
    and count: "be16 m (current + 18) < 0xFFFF"
  shows "\<exists>c' rows. process m header packet c = Some c'
           \<and> writer c' = writer c @ rows
           \<and> length rows = unat (be16 m (current + 18))
           \<and> map (\<lambda>row. row ! 3) rows
               = map (\<lambda>k. UInt64 (be64 m (current + 10) + 1 + of_nat k))
                   [0..<unat (be16 m (current + 18))]
           \<and> pcap_index (rec c') = pcap_index (rec c) + 1"
proof -
  let ?s = "process_header m header current c1"
  have c1: "c1 = c\<lparr>rec := pcap_index_increment (rec c)\<rparr>"
    by (rule try_get_nasdaq_itch_converter [OF demux])
  have "\<exists>s' rows. process_while m ?s = Some s'
           \<and> writer (snd s') = writer c1 @ rows
           \<and> length rows = unat (be16 m (current + 18))
           \<and> map (\<lambda>row. row ! 3) rows
               = map (\<lambda>k. UInt64 (be64 m (current + 10) + 1 + of_nat k))
                   [0..<unat (be16 m (current + 18))]
           \<and> pcap_index (rec (snd s')) = pcap_index (rec c1)"
    using process_while_rows [of "snd ?s" "unat (be16 m (current + 18))" m "fst ?s"] count
    unfolding prod.collapse by (simp add: process_header_result)
  then obtain s' rows where "process_while m ?s = Some s'"
      "writer (snd s') = writer c1 @ rows" "length rows = unat (be16 m (current + 18))"
      "map (\<lambda>row. row ! 3) rows
         = map (\<lambda>k. UInt64 (be64 m (current + 10) + 1 + of_nat k))
             [0..<unat (be16 m (current + 18))]"
      "pcap_index (rec (snd s')) = pcap_index (rec c1)"
    by blast
  then show ?thesis
    using demux by (simp add: process_def c1 pcap_index_increment_def)
qed

lemma process_None:
  assumes demux: "try_get_nasdaq_itch m packet c = Some (True, current, payload_length, c1)"
    and count: "be16 m (current + 18) = 0xFFFF"
  shows "process m header packet c = None"
  using demux count
  by (simp add: process_def process_while_None process_header_result)

text \<open>
  C7. For a demultiplexed packet, the number of rows is fixed by the MoldUDP64 message
  count alone. Whatever payload length the demultiplexer computed from the UDP header,
  a count below 0xFFFF makes \<^verbatim>\<open>process\<close> return with exactly that many rows written,
  also when the payload is too short to hold that many blocks.
\<close>

theorem rows_emitted_equal_message_count:
  "try_get_nasdaq_itch m packet c = Some (True, current, payload_length, c1) \<Longrightarrow>
   be16 m (current + 18) < 0xFFFF \<Longrightarrow>
   map_option (length \<circ> writer) (process m header packet c)
     = Some (length (writer c) + unat (be16 m (current + 18)))"
proof -
  assume "try_get_nasdaq_itch m packet c = Some (True, current, payload_length, c1)"
    and "be16 m (current + 18) < 0xFFFF"
  from process_rows [OF this, of header]
  obtain c' rows where "process m header packet c = Some c'" "writer c' = writer c @ rows"
      "length rows = unat (be16 m (current + 18))"
    by blast
  then show ?thesis
    by simp
qed

text \<open>
  The frame \<open>short_payload\<close> announces three messages. Its UDP payload has 34 bytes:
  the MoldUDP64 header and one block. Three rows are written.
\<close>

theorem rows_emitted_equal_message_count_witness:
  "try_get_nasdaq_itch short_payload 0 converter_init
     = Some (True, 42, 34, converter_init\<lparr>rec := record_init\<lparr>pcap_index := 1\<rparr>\<rparr>)
   \<and> be16 short_payload (42 + 18) = 3
   \<and> map_option (length \<circ> writer) (process short_payload pkthdr0 0 converter_init) = Some 3"
proof -
  have demux: "try_get_nasdaq_itch short_payload 0 converter_init
     = Some (True, 42, 34, converter_init\<lparr>rec := record_init\<lparr>pcap_index := 1\<rparr>\<rparr>)"
    by code_simp
  have count: "be16 short_payload (42 + 18) = 3"
    by code_simp
  have "be16 short_payload (42 + 18) < 0xFFFF"
    unfolding count by simp
  from rows_emitted_equal_message_count [OF demux this, of pkthdr0] demux count
  show ?thesis
    by (simp add: converter_init_def)
qed

text \<open>
  C9. A demultiplexed pcap record whose MoldUDP64 message count is 0 writes no row,
  and \<^verbatim>\<open>pcap_index\<close> is one more than before (\<^verbatim>\<open>data++\<close> on a \<^verbatim>\<open>uint64_t\<close>).
\<close>

theorem zero_count_writes_no_row_and_increments_pcap_index:
  "try_get_nasdaq_itch m packet c = Some (True, current, payload_length, c1) \<Longrightarrow>
   be16 m (current + 18) = 0 \<Longrightarrow>
   map_option writer (process m header packet c) = Some (writer c)
   \<and> map_option (pcap_index \<circ> rec) (process m header packet c) = Some (pcap_index (rec c) + 1)"
proof -
  assume demux: "try_get_nasdaq_itch m packet c = Some (True, current, payload_length, c1)"
    and count: "be16 m (current + 18) = 0"
  then have "be16 m (current + 18) < 0xFFFF"
    by simp
  from process_rows [OF demux this, of header]
  obtain c' rows where "process m header packet c = Some c'" "writer c' = writer c @ rows"
      "length rows = unat (be16 m (current + 18))"
      "pcap_index (rec c') = pcap_index (rec c) + 1"
    by blast
  then show ?thesis
    using count by simp
qed

theorem zero_count_writes_no_row_and_increments_pcap_index_witness:
  "try_get_nasdaq_itch heartbeat 0 converter_init
     = Some (True, 42, 20, converter_init\<lparr>rec := record_init\<lparr>pcap_index := 1\<rparr>\<rparr>)
   \<and> be16 heartbeat (42 + 18) = 0
   \<and> map_option writer (process heartbeat pkthdr0 0 converter_init) = Some []
   \<and> map_option (pcap_index \<circ> rec) (process heartbeat pkthdr0 0 converter_init) = Some 1"
proof -
  have demux: "try_get_nasdaq_itch heartbeat 0 converter_init
     = Some (True, 42, 20, converter_init\<lparr>rec := record_init\<lparr>pcap_index := 1\<rparr>\<rparr>)"
    by code_simp
  have count: "be16 heartbeat (42 + 18) = 0"
    by code_simp
  from zero_count_writes_no_row_and_increments_pcap_index [OF demux count, of pkthdr0] demux count
  show ?thesis
    by (simp add: converter_init_def record_init_def)
qed

text \<open>
  C3 fails on the end-of-session packet \<open>end_of_session\<close>. The frame is
  demultiplexed and its message count is 0xFFFF. \<^verbatim>\<open>message_index::increment\<close> answers
  \<^verbatim>\<open>data <= count\<close> on two \<^verbatim>\<open>uint16_t\<close>, which holds for every index when the count is
  0xFFFF, so the loop of \<^verbatim>\<open>process\<close> is entered and \<^verbatim>\<open>process\<close> does not return (lemma
  \<open>process_None\<close> for every such packet); each pass through the loop writes a row
  (lemma \<open>process_block_writer\<close>). On the heartbeat, with count 0, \<^verbatim>\<open>process\<close> returns
  and has written no row.
\<close>

theorem end_of_session_count_never_returns:
  "try_get_nasdaq_itch end_of_session 0 converter_init
     = Some (True, 42, 20, converter_init\<lparr>rec := record_init\<lparr>pcap_index := 1\<rparr>\<rparr>)
   \<and> be16 end_of_session (42 + 18) = 0xFFFF
   \<and> process end_of_session pkthdr0 0 converter_init = None
   \<and> map_option writer (process heartbeat pkthdr0 0 converter_init) = Some []"
proof -
  have demux: "try_get_nasdaq_itch end_of_session 0 converter_init
     = Some (True, 42, 20, converter_init\<lparr>rec := record_init\<lparr>pcap_index := 1\<rparr>\<rparr>)"
    by code_simp
  have count: "be16 end_of_session (42 + 18) = 0xFFFF"
    by code_simp
  have none: "process end_of_session pkthdr0 0 converter_init = None"
    by (rule process_None [OF demux count])
  have heartbeat: "map_option writer (process heartbeat pkthdr0 0 converter_init) = Some []"
    by code_simp
  from demux count none heartbeat show ?thesis
    by simp
qed

section \<open>Rows and the catalog\<close>

lemma catalog_None_process_message:
  "catalog t = None \<Longrightarrow> process_message m t s = s"
  by (simp add: catalog_def process_message_def split: if_splits)

lemma catalog_cases:
  "catalog t = Some names \<Longrightarrow>
     (t = 0x53 \<and> names =
       [''stock_locate'', ''tracking_number'', ''timestamp'', ''event_code''])
   \<or> (t = 0x52 \<and> names =
       [''stock_locate'', ''tracking_number'', ''timestamp'', ''stock'', ''market_category'',
        ''financial_status_indicator'', ''round_lot_size'', ''round_lots_only'',
        ''issue_classification'', ''issue_sub_type'', ''authenticity'',
        ''short_sale_threshold_indicator'', ''ipo_flag'', ''luld_reference_price_tier'',
        ''etp_flag'', ''etp_leverage_factor'', ''inverse_indicator''])
   \<or> (t = 0x48 \<and> names =
       [''stock_locate'', ''tracking_number'', ''timestamp'', ''stock'', ''trading_state'',
        ''reserved'', ''reason''])
   \<or> (t = 0x59 \<and> names =
       [''locate_code'', ''tracking_number'', ''timestamp'', ''stock'', ''reg_sho_action''])
   \<or> (t = 0x4C \<and> names =
       [''stock_locate'', ''tracking_number'', ''timestamp'', ''mpid'', ''stock'',
        ''primary_market_maker'', ''market_maker_mode'', ''market_participant_state''])
   \<or> (t = 0x56 \<and> names =
       [''stock_locate'', ''tracking_number'', ''timestamp'', ''level_1'', ''level_2'',
        ''level_3''])
   \<or> (t = 0x57 \<and> names =
       [''stock_locate'', ''tracking_number'', ''timestamp'', ''breached_level''])
   \<or> (t = 0x4B \<and> names =
       [''stock_locate'', ''tracking_number'', ''timestamp'', ''stock'',
        ''ipo_quotation_release_time'', ''ipo_quotation_release_qualifier'', ''ipo_price''])
   \<or> (t = 0x41 \<and> names =
       [''stock_locate'', ''tracking_number'', ''timestamp'', ''order_reference_number'',
        ''buy_sell_indicator'', ''shares'', ''stock'', ''price''])
   \<or> (t = 0x4A \<and> names =
       [''stock_locate'', ''tracking_number'', ''timestamp'', ''stock'',
        ''auction_collar_reference_price'', ''upper_auction_collar_price'',
        ''lower_auction_collar_price'', ''auction_collar_extension''])
   \<or> (t = 0x46 \<and> names =
       [''stock_locate'', ''tracking_number'', ''timestamp'', ''order_reference_number'',
        ''buy_sell_indicator'', ''shares'', ''stock'', ''price'', ''attribution''])
   \<or> (t = 0x45 \<and> names =
       [''stock_locate'', ''tracking_number'', ''timestamp'', ''order_reference_number'',
        ''executed_shares'', ''match_number''])
   \<or> (t = 0x43 \<and> names =
       [''stock_locate'', ''tracking_number'', ''timestamp'', ''order_reference_number'',
        ''executed_shares'', ''match_number'', ''printable'', ''execution_price''])
   \<or> (t = 0x58 \<and> names =
       [''stock_locate'', ''tracking_number'', ''timestamp'', ''order_reference_number'',
        ''canceled_shares''])
   \<or> (t = 0x44 \<and> names =
       [''stock_locate'', ''tracking_number'', ''timestamp'', ''order_reference_number''])
   \<or> (t = 0x55 \<and> names =
       [''stock_locate'', ''tracking_number'', ''timestamp'',
        ''original_order_reference_number'', ''new_order_reference_number'', ''shares'',
        ''price''])
   \<or> (t = 0x50 \<and> names =
       [''stock_locate'', ''tracking_number'', ''timestamp'', ''order_reference_number'',
        ''buy_sell_indicator'', ''shares'', ''stock'', ''price'', ''match_number''])
   \<or> (t = 0x51 \<and> names =
       [''stock_locate'', ''tracking_number'', ''timestamp'', ''cross_shares'', ''stock'',
        ''cross_price'', ''match_number'', ''cross_type''])
   \<or> (t = 0x42 \<and> names =
       [''stock_locate'', ''tracking_number'', ''timestamp'', ''match_number''])
   \<or> (t = 0x49 \<and> names =
       [''stock_locate'', ''tracking_number'', ''timestamp'', ''paired_shares'',
        ''imbalance_shares'', ''imbalance_direction'', ''stock'', ''far_price'',
        ''near_price'', ''current_reference_price'', ''cross_type'',
        ''price_variation_indicator''])
   \<or> (t = 0x4E \<and> names =
       [''stock_locate'', ''tracking_number'', ''timestamp'', ''stock'', ''interest_flag''])"
  by (simp add: catalog_def split: if_splits)

lemma process_block_last_row:
  "last (writer (snd (process_block m (current, c))))
     = write_row (rec (snd (process_block m (current, c))))"
  by (simp add: process_block_writer)

text \<open>The row that a block writes: the reset row, its header members, the decoded message.\<close>

lemma process_block_rec:
  "rec (snd (process_block m (current, c)))
     = snd (process_message m (m (current + 2))
         (current + 2 + 1, (reset (rec c))\<lparr>message_length := be16 m current,
            message_type := m (current + 2),
            message_sequence := message_sequence (rec c) + 1\<rparr>))"
  by (simp add: process_block_defs reset_framing)

lemmas column_defs =
  non_null_columns_def write_row_def nodes_def mk_node_def put_optional_def

text \<open>A row that was reset and not decoded into has no message-field column.\<close>

lemma reset_columns:
  "non_null_columns (write_row
     ((reset r)\<lparr>message_length := a, message_type := b, message_sequence := s\<rparr>)) = []"
  by (simp add: reset_def column_defs)

text \<open>
  Each message decoder, run on a reset row, fills the columns that the catalog lists
  for its type and no other.
\<close>

lemma message_columns:
  "set (non_null_columns (write_row (snd (process_system_event_message m
      (p, (reset r)\<lparr>message_length := a, message_type := b, message_sequence := s\<rparr>)))))
    = set
       [''stock_locate'', ''tracking_number'', ''timestamp'', ''event_code'']"
  "set (non_null_columns (write_row (snd (process_stock_directory_message m
      (p, (reset r)\<lparr>message_length := a, message_type := b, message_sequence := s\<rparr>)))))
    = set
       [''stock_locate'', ''tracking_number'', ''timestamp'', ''stock'', ''market_category'',
        ''financial_status_indicator'', ''round_lot_size'', ''round_lots_only'',
        ''issue_classification'', ''issue_sub_type'', ''authenticity'',
        ''short_sale_threshold_indicator'', ''ipo_flag'', ''luld_reference_price_tier'',
        ''etp_flag'', ''etp_leverage_factor'', ''inverse_indicator'']"
  "set (non_null_columns (write_row (snd (process_stock_trading_action_message m
      (p, (reset r)\<lparr>message_length := a, message_type := b, message_sequence := s\<rparr>)))))
    = set
       [''stock_locate'', ''tracking_number'', ''timestamp'', ''stock'', ''trading_state'',
        ''reserved'', ''reason'']"
  "set (non_null_columns (write_row (snd (process_reg_sho_short_sale_price_test_restricted_indicator_message m
      (p, (reset r)\<lparr>message_length := a, message_type := b, message_sequence := s\<rparr>)))))
    = set
       [''locate_code'', ''tracking_number'', ''timestamp'', ''stock'', ''reg_sho_action'']"
  "set (non_null_columns (write_row (snd (process_market_participant_position_message m
      (p, (reset r)\<lparr>message_length := a, message_type := b, message_sequence := s\<rparr>)))))
    = set
       [''stock_locate'', ''tracking_number'', ''timestamp'', ''mpid'', ''stock'',
        ''primary_market_maker'', ''market_maker_mode'', ''market_participant_state'']"
  "set (non_null_columns (write_row (snd (process_mwcb_decline_level_message m
      (p, (reset r)\<lparr>message_length := a, message_type := b, message_sequence := s\<rparr>)))))
    = set
       [''stock_locate'', ''tracking_number'', ''timestamp'', ''level_1'', ''level_2'',
        ''level_3'']"
  "set (non_null_columns (write_row (snd (process_mwcb_status_level_message m
      (p, (reset r)\<lparr>message_length := a, message_type := b, message_sequence := s\<rparr>)))))
    = set
       [''stock_locate'', ''tracking_number'', ''timestamp'', ''breached_level'']"
  "set (non_null_columns (write_row (snd (process_ipo_quoting_period_update m
      (p, (reset r)\<lparr>message_length := a, message_type := b, message_sequence := s\<rparr>)))))
    = set
       [''stock_locate'', ''tracking_number'', ''timestamp'', ''stock'',
        ''ipo_quotation_release_time'', ''ipo_quotation_release_qualifier'', ''ipo_price'']"
  "set (non_null_columns (write_row (snd (process_add_order_no_mpid_attribution_message m
      (p, (reset r)\<lparr>message_length := a, message_type := b, message_sequence := s\<rparr>)))))
    = set
       [''stock_locate'', ''tracking_number'', ''timestamp'', ''order_reference_number'',
        ''buy_sell_indicator'', ''shares'', ''stock'', ''price'']"
  "set (non_null_columns (write_row (snd (process_luld_auction_collar_message m
      (p, (reset r)\<lparr>message_length := a, message_type := b, message_sequence := s\<rparr>)))))
    = set
       [''stock_locate'', ''tracking_number'', ''timestamp'', ''stock'',
        ''auction_collar_reference_price'', ''upper_auction_collar_price'',
        ''lower_auction_collar_price'', ''auction_collar_extension'']"
  "set (non_null_columns (write_row (snd (process_add_order_with_mpid_attribution_message m
      (p, (reset r)\<lparr>message_length := a, message_type := b, message_sequence := s\<rparr>)))))
    = set
       [''stock_locate'', ''tracking_number'', ''timestamp'', ''order_reference_number'',
        ''buy_sell_indicator'', ''shares'', ''stock'', ''price'', ''attribution'']"
  "set (non_null_columns (write_row (snd (process_order_executed_message m
      (p, (reset r)\<lparr>message_length := a, message_type := b, message_sequence := s\<rparr>)))))
    = set
       [''stock_locate'', ''tracking_number'', ''timestamp'', ''order_reference_number'',
        ''executed_shares'', ''match_number'']"
  "set (non_null_columns (write_row (snd (process_order_executed_with_price_message m
      (p, (reset r)\<lparr>message_length := a, message_type := b, message_sequence := s\<rparr>)))))
    = set
       [''stock_locate'', ''tracking_number'', ''timestamp'', ''order_reference_number'',
        ''executed_shares'', ''match_number'', ''printable'', ''execution_price'']"
  "set (non_null_columns (write_row (snd (process_order_cancel_message m
      (p, (reset r)\<lparr>message_length := a, message_type := b, message_sequence := s\<rparr>)))))
    = set
       [''stock_locate'', ''tracking_number'', ''timestamp'', ''order_reference_number'',
        ''canceled_shares'']"
  "set (non_null_columns (write_row (snd (process_order_delete_message m
      (p, (reset r)\<lparr>message_length := a, message_type := b, message_sequence := s\<rparr>)))))
    = set
       [''stock_locate'', ''tracking_number'', ''timestamp'', ''order_reference_number'']"
  "set (non_null_columns (write_row (snd (process_order_replace_message m
      (p, (reset r)\<lparr>message_length := a, message_type := b, message_sequence := s\<rparr>)))))
    = set
       [''stock_locate'', ''tracking_number'', ''timestamp'',
        ''original_order_reference_number'', ''new_order_reference_number'', ''shares'',
        ''price'']"
  "set (non_null_columns (write_row (snd (process_non_cross_trade_message m
      (p, (reset r)\<lparr>message_length := a, message_type := b, message_sequence := s\<rparr>)))))
    = set
       [''stock_locate'', ''tracking_number'', ''timestamp'', ''order_reference_number'',
        ''buy_sell_indicator'', ''shares'', ''stock'', ''price'', ''match_number'']"
  "set (non_null_columns (write_row (snd (process_cross_trade_message m
      (p, (reset r)\<lparr>message_length := a, message_type := b, message_sequence := s\<rparr>)))))
    = set
       [''stock_locate'', ''tracking_number'', ''timestamp'', ''cross_shares'', ''stock'',
        ''cross_price'', ''match_number'', ''cross_type'']"
  "set (non_null_columns (write_row (snd (process_broken_trade_message m
      (p, (reset r)\<lparr>message_length := a, message_type := b, message_sequence := s\<rparr>)))))
    = set
       [''stock_locate'', ''tracking_number'', ''timestamp'', ''match_number'']"
  "set (non_null_columns (write_row (snd (process_net_order_imbalance_indicator_message m
      (p, (reset r)\<lparr>message_length := a, message_type := b, message_sequence := s\<rparr>)))))
    = set
       [''stock_locate'', ''tracking_number'', ''timestamp'', ''paired_shares'',
        ''imbalance_shares'', ''imbalance_direction'', ''stock'', ''far_price'',
        ''near_price'', ''current_reference_price'', ''cross_type'',
        ''price_variation_indicator'']"
  "set (non_null_columns (write_row (snd (process_retail_interest_message m
      (p, (reset r)\<lparr>message_length := a, message_type := b, message_sequence := s\<rparr>)))))
    = set
       [''stock_locate'', ''tracking_number'', ''timestamp'', ''stock'', ''interest_flag'']"
  by (simp_all add: message_defs field_set_defs reset_def column_defs insert_commute)

lemma process_block_catalog_columns:
  assumes "catalog (m (current + 2)) = Some names"
  shows "set (non_null_columns (write_row (rec (snd (process_block m (current, c)))))) = set names"
  using catalog_cases [OF assms]
  by (elim disjE conjE) (simp_all add: process_block_rec process_message_def message_columns)

lemma process_block_unknown_columns:
  assumes "catalog (m (current + 2)) = None"
  shows "non_null_columns (write_row (rec (snd (process_block m (current, c))))) = []"
  using assms by (simp add: process_block_rec catalog_None_process_message reset_columns)

text \<open>
  C5. Every row is written by the body of the block loop. When the type byte of the
  block has a catalog entry, the message-field columns of the written row that are not
  null are exactly the columns of that entry, whatever the row held before.
\<close>

theorem emitted_row_has_exactly_the_catalog_fields:
  "catalog (m (current + 2)) = Some names \<Longrightarrow>
   last (writer (snd (process_block m (current, c)))) ! 5 = UInt8 (m (current + 2))
   \<and> set (non_null_columns (last (writer (snd (process_block m (current, c)))))) = set names"
  by (simp add: process_block_last_row process_block_catalog_columns write_row_framing
      process_block_framing)

text \<open>The System Event block of scenario A starts at offset 62 of the frame.\<close>

theorem emitted_row_has_exactly_the_catalog_fields_witness:
  "catalog (scenario_A (62 + 2))
     = Some [''stock_locate'', ''tracking_number'', ''timestamp'', ''event_code'']
   \<and> last (writer (snd (process_block scenario_A (62, converter_init)))) ! 5 = UInt8 0x53
   \<and> set (non_null_columns (last (writer (snd (process_block scenario_A (62, converter_init))))))
       = set [''stock_locate'', ''tracking_number'', ''timestamp'', ''event_code'']"
proof -
  have entry: "catalog (scenario_A (62 + 2))
     = Some [''stock_locate'', ''tracking_number'', ''timestamp'', ''event_code'']"
    by code_simp
  have type: "scenario_A (62 + 2) = 0x53"
    by code_simp
  from emitted_row_has_exactly_the_catalog_fields
    [of scenario_A 62 "[''stock_locate'', ''tracking_number'', ''timestamp'', ''event_code'']"
        converter_init]
    entry type
  show ?thesis
    by simp
qed

text \<open>
  C1, as amended. For every block whose type byte has no catalog entry, the driver
  moves the cursor over the two length bytes and the declared length and goes on, and
  it writes a row for that block: the row carries the type byte, and every one of its
  message-field columns is null. A packet of two messages, the first of a catalogued
  type and the second of an unknown type, writes two rows.
\<close>

theorem unknown_type_consumes_block_and_writes_null_row:
  "(catalog (m (current + 2)) = None \<longrightarrow>
      fst (process_block m (current, c)) = current + 2 + unat (be16 m current)
      \<and> writer (snd (process_block m (current, c)))
          = writer c @ [last (writer (snd (process_block m (current, c))))]
      \<and> last (writer (snd (process_block m (current, c)))) ! 5 = UInt8 (m (current + 2))
      \<and> non_null_columns (last (writer (snd (process_block m (current, c))))) = [])
   \<and> (try_get_nasdaq_itch m packet c = Some (True, payload, payload_length, c1)
      \<and> be16 m (payload + 18) = 2
      \<and> catalog (m (payload + 20 + 2)) \<noteq> None
      \<and> catalog (m (payload + 20 + 2 + unat (be16 m (payload + 20)) + 2)) = None \<longrightarrow>
      map_option (length \<circ> writer) (process m header packet c) = Some (length (writer c) + 2))"
proof (intro conjI impI)
  assume unknown: "catalog (m (current + 2)) = None"
  show "fst (process_block m (current, c)) = current + 2 + unat (be16 m current)"
    by (rule process_block_cursor)
  show "writer (snd (process_block m (current, c)))
          = writer c @ [last (writer (snd (process_block m (current, c))))]"
    unfolding process_block_last_row by (rule process_block_writer)
  show "last (writer (snd (process_block m (current, c)))) ! 5 = UInt8 (m (current + 2))"
    by (simp add: process_block_last_row write_row_framing process_block_framing)
  show "non_null_columns (last (writer (snd (process_block m (current, c))))) = []"
    unfolding process_block_last_row
    using unknown by (rule process_block_unknown_columns [of m current c])
next
  assume "try_get_nasdaq_itch m packet c = Some (True, payload, payload_length, c1)
      \<and> be16 m (payload + 18) = 2
      \<and> catalog (m (payload + 20 + 2)) \<noteq> None
      \<and> catalog (m (payload + 20 + 2 + unat (be16 m (payload + 20)) + 2)) = None"
  then have demux: "try_get_nasdaq_itch m packet c = Some (True, payload, payload_length, c1)"
    and count: "be16 m (payload + 18) = 2"
    by simp_all
  from count have "be16 m (payload + 18) < 0xFFFF"
    by simp
  from process_rows [OF demux this, of header]
  obtain c' rows where "process m header packet c = Some c'" "writer c' = writer c @ rows"
      "length rows = unat (be16 m (payload + 18))"
    by blast
  then show "map_option (length \<circ> writer) (process m header packet c)
      = Some (length (writer c) + 2)"
    using count by simp
qed

text \<open>
  In scenario C the block of unknown type starts at offset 83, behind the MoldUDP64
  header at 42 and the Order Delete block at 62.
\<close>

theorem unknown_type_consumes_block_and_writes_null_row_witness:
  "catalog (scenario_C (83 + 2)) = None
   \<and> fst (process_block scenario_C (83, converter_init)) = 88
   \<and> writer (snd (process_block scenario_C (83, converter_init)))
       = [last (writer (snd (process_block scenario_C (83, converter_init))))]
   \<and> last (writer (snd (process_block scenario_C (83, converter_init)))) ! 5 = UInt8 0x7A
   \<and> non_null_columns (last (writer (snd (process_block scenario_C (83, converter_init))))) = []
   \<and> map_option (length \<circ> writer) (process scenario_C pkthdr0 0 converter_init) = Some 2"
proof -
  have unknown: "catalog (scenario_C (83 + 2)) = None"
    by code_simp
  have type: "scenario_C (83 + 2) = 0x7A"
    by code_simp
  have len: "be16 scenario_C 83 = 3"
    by code_simp
  have demux: "try_get_nasdaq_itch scenario_C 0 converter_init
     = Some (True, 42, 46, converter_init\<lparr>rec := record_init\<lparr>pcap_index := 1\<rparr>\<rparr>)"
    by code_simp
  have count: "be16 scenario_C (42 + 18) = 2"
    by code_simp
  have known: "catalog (scenario_C (42 + 20 + 2)) \<noteq> None"
    by code_simp
  have second: "catalog (scenario_C (42 + 20 + 2 + unat (be16 scenario_C (42 + 20)) + 2)) = None"
    by code_simp
  note rule = unknown_type_consumes_block_and_writes_null_row
    [where m = scenario_C and current = 83 and c = converter_init and packet = 0
       and payload = 42 and payload_length = 46 and header = pkthdr0
       and ?c1.0 = "converter_init\<lparr>rec := record_init\<lparr>pcap_index := 1\<rparr>\<rparr>"]
  from rule unknown
  have block: "fst (process_block scenario_C (83, converter_init))
        = 83 + 2 + unat (be16 scenario_C 83)
      \<and> writer (snd (process_block scenario_C (83, converter_init)))
        = writer converter_init @ [last (writer (snd (process_block scenario_C (83, converter_init))))]
      \<and> last (writer (snd (process_block scenario_C (83, converter_init)))) ! 5
        = UInt8 (scenario_C (83 + 2))
      \<and> non_null_columns (last (writer (snd (process_block scenario_C (83, converter_init))))) = []"
    by blast
  from rule demux count known second
  have "map_option (length \<circ> writer) (process scenario_C pkthdr0 0 converter_init)
      = Some (length (writer converter_init) + 2)"
    by blast
  moreover have "length (writer converter_init) + 2 = 2"
    by (simp add: converter_init_def)
  ultimately
  have rows: "map_option (length \<circ> writer) (process scenario_C pkthdr0 0 converter_init) = Some 2"
    by (simp only:)
  have "83 + 2 + unat (be16 scenario_C 83) = 88"
    unfolding len by simp
  moreover have "writer converter_init = []"
    by (simp add: converter_init_def)
  ultimately show ?thesis
    using block rows unknown type by (simp only: append_Nil simp_thms)
qed

text \<open>
  C1 as stated fails on scenario C: the Order Delete type has a catalog entry, the type
  0x7A has none, and the packet writes two rows, the second for the unknown type.
\<close>

theorem scenario_C_writes_two_rows:
  "catalog 0x44 \<noteq> None \<and> catalog 0x7A = None
   \<and> map_option (map (\<lambda>row. row ! 5) \<circ> writer) (process scenario_C pkthdr0 0 converter_init)
       = Some [UInt8 0x44, UInt8 0x7A]"
  by code_simp

text \<open>
  C2 fails on scenario A: the MoldUDP64 header carries sequence number 100, and the
  single row is written with sequence number 101. \<^verbatim>\<open>message_sequence.increment()\<close> runs
  before every \<^verbatim>\<open>writer << record\<close>, the first one included (lemma \<open>process_rows\<close>).
\<close>

theorem scenario_A_sequence_is_one_above_header:
  "be64 scenario_A (42 + 10) = 100
   \<and> map_option (map (\<lambda>row. row ! 3) \<circ> writer) (process scenario_A pkthdr0 0 converter_init)
       = Some [UInt64 101]"
  by code_simp

section \<open>Schema and round trip\<close>

text \<open>
  C4 fails on the schema itself. \<^verbatim>\<open>record::nodes\<close> has 67 columns; the first six are
  required, the other 61 are optional and in strictly ascending alphabetical order of
  their names. The name of the second column, the node of \<^verbatim>\<open>struct pcap_timestamp\<close>, is
  \<^verbatim>\<open>timestamp\<close>, not \<^verbatim>\<open>pcap_timestamp\<close>: it is also the name of column 64, the
  message field \<^verbatim>\<open>timestamp\<close>.
\<close>

theorem schema_names_pcap_timestamp_column_timestamp:
  "map node_name (take 6 nodes)
     = [''pcap_index'', ''timestamp'', ''session'', ''message_sequence'', ''message_index'',
        ''message_type'']
   \<and> node_name (nodes ! 1) = node_name (nodes ! 63)
   \<and> length nodes = 67
   \<and> map node_repetition (take 6 nodes) = replicate 6 REQUIRED
   \<and> map node_repetition (drop 6 nodes) = replicate 61 OPTIONAL
   \<and> sorted (map node_name (drop 6 nodes))
   \<and> distinct (map node_name (drop 6 nodes))"
  by code_simp

text \<open>Reading back what was written for one column.\<close>

lemma get_required:
  "get_uint64 upd (UInt64 a # cs, row) = Some (cs, upd (\<lambda>_. a) row)"
  "get_micros upd (Micros a # cs, row) = Some (cs, upd (\<lambda>_. a) row)"
  "get_utf8 upd' (Utf8 t # cs, row) = Some (cs, upd' (\<lambda>_. t) row)"
  "get_uint16 upd16 (UInt16 i # cs, row) = Some (cs, upd16 (\<lambda>_. i) row)"
  "get_uint8 upd8 (UInt8 b # cs, row) = Some (cs, upd8 (\<lambda>_. b) row)"
  by (simp_all add: get_uint64_def get_micros_def get_utf8_def get_uint16_def get_uint8_def)

lemma get_optional:
  "get_optional_uint8 f8 (put_optional UInt8 v8 # cs, row) = Some (cs, f8 (\<lambda>_. v8) row)"
  "get_optional_uint16 f16 (put_optional UInt16 v16 # cs, row) = Some (cs, f16 (\<lambda>_. v16) row)"
  "get_optional_uint32 f32 (put_optional UInt32 v32 # cs, row) = Some (cs, f32 (\<lambda>_. v32) row)"
  "get_optional_uint64 f64 (put_optional UInt64 v64 # cs, row) = Some (cs, f64 (\<lambda>_. v64) row)"
  "get_optional_utf8 ft (put_optional Utf8 vt # cs, row) = Some (cs, ft (\<lambda>_. vt) row)"
  by (simp_all add: get_optional_uint8_def get_optional_uint16_def get_optional_uint32_def
      get_optional_uint64_def get_optional_utf8_def put_optional_def split: option.split)

text \<open>Every value of a written row is of the type of its column in the schema.\<close>

lemma conforms_put_optional:
  assumes "node_repetition n = OPTIONAL"
  shows "node_type n = INT32 \<Longrightarrow> node_converted_type n = UINT_8 \<Longrightarrow>
           conforms n (put_optional UInt8 v8)"
    and "node_type n = INT32 \<Longrightarrow> node_converted_type n = UINT_16 \<Longrightarrow>
           conforms n (put_optional UInt16 v16)"
    and "node_type n = INT32 \<Longrightarrow> node_converted_type n = UINT_32 \<Longrightarrow>
           conforms n (put_optional UInt32 v32)"
    and "node_type n = INT64 \<Longrightarrow> node_converted_type n = UINT_64 \<Longrightarrow>
           conforms n (put_optional UInt64 v64)"
    and "node_type n = BYTE_ARRAY \<Longrightarrow> node_converted_type n = UTF8 \<Longrightarrow>
           conforms n (put_optional Utf8 vt)"
  using assms by (simp_all add: put_optional_def conforms_def split: option.split)

lemma write_row_conforms_to_schema:
  "list_all2 conforms nodes (write_row row)"
  by (simp add: nodes_def write_row_def mk_node_def conforms_put_optional)
    (simp add: conforms_def)

text \<open>
  C8. Reading back a written row gives every column the value it was written with:
  the words and the texts are the same. The two members of the row that are no columns,
  \<^verbatim>\<open>message_length\<close> and the count of \<^verbatim>\<open>message_index\<close>, keep the values of the row
  that is read into.
\<close>

theorem read_row_write_row:
  "read_row (write_row row) row0
     = Some (row\<lparr>message_index_count := message_index_count row0,
                message_length := message_length row0\<rparr>)"
proof -
  have "read_row (write_row row) row0 = Some (row0
     \<lparr>pcap_index := pcap_index row, pcap_timestamp := pcap_timestamp row, session := session row,
      message_sequence := message_sequence row, message_index := message_index row,
      message_type := message_type row,
      attribution := attribution row,
      auction_collar_extension := auction_collar_extension row,
      auction_collar_reference_price := auction_collar_reference_price row,
      authenticity := authenticity row, breached_level := breached_level row,
      buy_sell_indicator := buy_sell_indicator row, canceled_shares := canceled_shares row,
      cross_price := cross_price row, cross_shares := cross_shares row,
      cross_type := cross_type row, current_reference_price := current_reference_price row,
      etp_flag := etp_flag row, etp_leverage_factor := etp_leverage_factor row,
      event_code := event_code row, executed_shares := executed_shares row,
      execution_price := execution_price row, far_price := far_price row,
      financial_status_indicator := financial_status_indicator row,
      imbalance_direction := imbalance_direction row,
      imbalance_shares := imbalance_shares row, interest_flag := interest_flag row,
      inverse_indicator := inverse_indicator row, ipo_flag := ipo_flag row,
      ipo_price := ipo_price row,
      ipo_quotation_release_qualifier := ipo_quotation_release_qualifier row,
      ipo_quotation_release_time := ipo_quotation_release_time row,
      issue_classification := issue_classification row, issue_sub_type := issue_sub_type row,
      level_1 := level_1 row, level_2 := level_2 row, level_3 := level_3 row,
      locate_code := locate_code row,
      lower_auction_collar_price := lower_auction_collar_price row,
      luld_reference_price_tier := luld_reference_price_tier row,
      market_category := market_category row, market_maker_mode := market_maker_mode row,
      market_participant_state := market_participant_state row,
      match_number := match_number row, mpid := mpid row, near_price := near_price row,
      new_order_reference_number := new_order_reference_number row,
      order_reference_number := order_reference_number row,
      original_order_reference_number := original_order_reference_number row,
      paired_shares := paired_shares row, price := price row,
      price_variation_indicator := price_variation_indicator row,
      primary_market_maker := primary_market_maker row, printable := printable row,
      reason := reason row, reg_sho_action := reg_sho_action row, reserved := reserved row,
      round_lot_size := round_lot_size row, round_lots_only := round_lots_only row,
      shares := shares row,
      short_sale_threshold_indicator := short_sale_threshold_indicator row,
      stock := stock row, stock_locate := stock_locate row, timestamp := timestamp row,
      tracking_number := tracking_number row, trading_state := trading_state row,
      upper_auction_collar_price := upper_auction_collar_price row\<rparr>)"
    by (simp add: read_row_def write_row_def get_required get_optional end_row_def)
  also have "row0
     \<lparr>pcap_index := pcap_index row, pcap_timestamp := pcap_timestamp row, session := session row,
      message_sequence := message_sequence row, message_index := message_index row,
      message_type := message_type row,
      attribution := attribution row,
      auction_collar_extension := auction_collar_extension row,
      auction_collar_reference_price := auction_collar_reference_price row,
      authenticity := authenticity row, breached_level := breached_level row,
      buy_sell_indicator := buy_sell_indicator row, canceled_shares := canceled_shares row,
      cross_price := cross_price row, cross_shares := cross_shares row,
      cross_type := cross_type row, current_reference_price := current_reference_price row,
      etp_flag := etp_flag row, etp_leverage_factor := etp_leverage_factor row,
      event_code := event_code row, executed_shares := executed_shares row,
      execution_price := execution_price row, far_price := far_price row,
      financial_status_indicator := financial_status_indicator row,
      imbalance_direction := imbalance_direction row,
      imbalance_shares := imbalance_shares row, interest_flag := interest_flag row,
      inverse_indicator := inverse_indicator row, ipo_flag := ipo_flag row,
      ipo_price := ipo_price row,
      ipo_quotation_release_qualifier := ipo_quotation_release_qualifier row,
      ipo_quotation_release_time := ipo_quotation_release_time row,
      issue_classification := issue_classification row, issue_sub_type := issue_sub_type row,
      level_1 := level_1 row, level_2 := level_2 row, level_3 := level_3 row,
      locate_code := locate_code row,
      lower_auction_collar_price := lower_auction_collar_price row,
      luld_reference_price_tier := luld_reference_price_tier row,
      market_category := market_category row, market_maker_mode := market_maker_mode row,
      market_participant_state := market_participant_state row,
      match_number := match_number row, mpid := mpid row, near_price := near_price row,
      new_order_reference_number := new_order_reference_number row,
      order_reference_number := order_reference_number row,
      original_order_reference_number := original_order_reference_number row,
      paired_shares := paired_shares row, price := price row,
      price_variation_indicator := price_variation_indicator row,
      primary_market_maker := primary_market_maker row, printable := printable row,
      reason := reason row, reg_sho_action := reg_sho_action row, reserved := reserved row,
      round_lot_size := round_lot_size row, round_lots_only := round_lots_only row,
      shares := shares row,
      short_sale_threshold_indicator := short_sale_threshold_indicator row,
      stock := stock row, stock_locate := stock_locate row, timestamp := timestamp row,
      tracking_number := tracking_number row, trading_state := trading_state row,
      upper_auction_collar_price := upper_auction_collar_price row\<rparr>
    = row\<lparr>message_index_count := message_index_count row0,
          message_length := message_length row0\<rparr>"
    by (rule itch_record.equality) simp_all
  finally show ?thesis .
qed

end
